theory Spec2Isabelle
  imports Complex_Main "HOL-Library.Char_ord" "HOL-Library.List_Lexorder"
begin

section \<open>Python strings\<close>

text \<open>
  A Python \<open>str\<close> is modelled as a \<open>string\<close>; each \<open>char\<close> stands for one code
  point, so the model covers text in the Latin-1 range. \<open>py_in n s\<close> is Python's
  \<open>n in s\<close> on strings: the empty string is in every string.
\<close>

fun starts_with :: "string \<Rightarrow> string \<Rightarrow> bool" where
  "starts_with s [] = True"
| "starts_with [] (p # ps) = False"
| "starts_with (c # cs) (p # ps) = (c = p \<and> starts_with cs ps)"

fun py_in :: "string \<Rightarrow> string \<Rightarrow> bool" where
  "py_in n [] = (n = [])"
| "py_in n (c # cs) = (starts_with (c # cs) n \<or> py_in n cs)"

text \<open>\<open>str(x)\<close> of an \<open>Optional[str]\<close>, as an f-string prints it.\<close>

definition str_optional :: "string option \<Rightarrow> string" where
  "str_optional e = (case e of None \<Rightarrow> ''None'' | Some s \<Rightarrow> s)"

section \<open>The HTTP exchange\<close>

text \<open>
  What the \<open>requests\<close> session gives back to one call. \<open>status_error\<close> is the message
  of the \<open>HTTPError\<close> that \<open>raise_for_status()\<close> raises, \<open>None\<close> when it returns;
  \<open>content_type\<close> is \<open>headers.get('Content-Type', '')\<close>.
\<close>

record response =
  resp_url :: string
  status_code :: int
  status_error :: "string option"
  content_type :: string
  resp_text :: string

text \<open>
  A call either returns a response or raises: \<open>requests.exceptions.Timeout\<close>, another
  \<open>RequestException\<close>, or any other exception; each carries \<open>str(e)\<close>.
\<close>

datatype http = Responded response | TimedOut string | RequestFailed string | Crashed string

section \<open>APIClient.login (api_client.py)\<close>

text \<open>
  The portal as one login sees it: the answer to the GET of the login page, the exception
  (if any) raised while the hidden form fields are read out of that page, the answer to
  the POST of the form for a username and password, and the answer to the GET of the
  account page. Debug files and sleeps have no effect on the result.
\<close>

record portal =
  login_page :: http
  form_error :: "string option"
  login_post :: "string \<Rightarrow> string \<Rightarrow> http"
  dashboard :: http

definition ACCOUNT :: string where
  "ACCOUNT = ''https://www.alfa.com.lb/en/account''"

definition request_failed :: "string \<Rightarrow> bool \<times> string option" where
  "request_failed e = (False, Some (''Login request failed: '' @ e))"

definition unexpected_error :: "string \<Rightarrow> bool \<times> string option" where
  "unexpected_error e = (False, Some (''Unexpected error during login: '' @ e))"

text \<open>
  One request inside the \<open>try\<close> block of \<open>login\<close>: the response, or the pair that
  the matching \<open>except\<close> clause returns. \<open>Timeout\<close> is a \<open>RequestException\<close>.
\<close>

fun attempt :: "http \<Rightarrow> (bool \<times> string option) + response" where
  "attempt (Responded r) = Inr r"
| "attempt (TimedOut e) = Inl (request_failed e)"
| "attempt (RequestFailed e) = Inl (request_failed e)"
| "attempt (Crashed e) = Inl (unexpected_error e)"

definition raise_for_status :: "response \<Rightarrow> (bool \<times> string option) + response" where
  "raise_for_status r = (case status_error r of Some e \<Rightarrow> Inl (request_failed e) | None \<Rightarrow> Inr r)"

definition login :: "portal \<Rightarrow> string \<Rightarrow> string \<Rightarrow> bool \<times> string option" where
  "login p username password =
     (case attempt (login_page p) of Inl failure \<Rightarrow> failure | Inr r0 \<Rightarrow>
     (case raise_for_status r0 of Inl failure \<Rightarrow> failure | Inr r1 \<Rightarrow>
     (case form_error p of Some e \<Rightarrow> unexpected_error e | None \<Rightarrow>
     (case attempt (login_post p username password) of Inl failure \<Rightarrow> failure | Inr r2 \<Rightarrow>
     (case raise_for_status r2 of Inl failure \<Rightarrow> failure | Inr r3 \<Rightarrow>
        if py_in ACCOUNT (resp_url r3) \<or> py_in ''Dashboard'' (resp_text r3)
             \<or> py_in username (resp_text r3)
        then (case attempt (dashboard p) of Inl failure \<Rightarrow> failure | Inr dash_resp \<Rightarrow>
                if py_in username (resp_text dash_resp)
                     \<or> py_in ''Current Balance'' (resp_text dash_resp)
                then (True, None)
                else (False, Some ''Dashboard verification failed''))
        else if py_in ''Invalid username or password'' (resp_text r3)
        then (False, Some ''Invalid credentials'')
        else (False, Some (''Login failed. Final URL: '' @ resp_url r3)))))))"

section \<open>SessionManager (session_manager.py)\<close>

text \<open>
  A \<open>datetime\<close> is a number of microseconds, a \<open>timedelta\<close> a difference of two.
  Each method of the manager runs under its lock; its readings of \<open>datetime.now()\<close>
  are taken as one instant \<open>now\<close>, an argument of the method. An \<open>APIClient\<close> object
  is known by its identity, the number of clients constructed before it.
\<close>

definition timedelta_minutes :: "int \<Rightarrow> int" where
  "timedelta_minutes m = m * 60000000"

record SessionInfo =
  client :: nat
  si_username :: string
  si_password :: string
  login_time :: int
  last_used :: int
  is_valid :: bool

definition is_expired :: "int \<Rightarrow> SessionInfo \<Rightarrow> int \<Rightarrow> bool" where
  "is_expired now si max_age = (now - login_time si > timedelta_minutes max_age)"

definition is_idle :: "int \<Rightarrow> SessionInfo \<Rightarrow> int \<Rightarrow> bool" where
  "is_idle now si max_idle = (now - last_used si > timedelta_minutes max_idle)"

record SessionManager =
  sessions :: "string \<rightharpoonup> SessionInfo"
  max_age_minutes :: int
  max_idle_minutes :: int

text \<open>\<open>SessionManager()\<close> with the defaults of \<open>__init__\<close>: the module's \<open>session_manager\<close>.\<close>

definition new_session_manager :: SessionManager where
  "new_session_manager = \<lparr>sessions = Map.empty, max_age_minutes = 30, max_idle_minutes = 10\<rparr>"

text \<open>
  \<open>_cleanup_sessions\<close>: the first loop collects the usernames whose entry is expired,
  idle or invalid, the second deletes them; on a dictionary that leaves exactly the
  entries for which the test is false.
\<close>

definition to_remove :: "int \<Rightarrow> SessionManager \<Rightarrow> SessionInfo \<Rightarrow> bool" where
  "to_remove now m si =
     (is_expired now si (max_age_minutes m) \<or> is_idle now si (max_idle_minutes m)
        \<or> \<not> is_valid si)"

definition cleanup_sessions :: "int \<Rightarrow> SessionManager \<Rightarrow> SessionManager" where
  "cleanup_sessions now m =
     m\<lparr>sessions := (\<lambda>username.
          case sessions m username of
            None \<Rightarrow> None
          | Some si \<Rightarrow> if to_remove now m si then None else Some si)\<rparr>"

definition invalidate_session :: "string \<Rightarrow> SessionManager \<Rightarrow> SessionManager" where
  "invalidate_session username m =
     (case sessions m username of
        Some si \<Rightarrow> m\<lparr>sessions := (sessions m)(username \<mapsto> si\<lparr>is_valid := False\<rparr>)\<rparr>
      | None \<Rightarrow> m)"

definition remove_session :: "string \<Rightarrow> SessionManager \<Rightarrow> SessionManager" where
  "remove_session username m =
     (case sessions m username of
        Some si \<Rightarrow> m\<lparr>sessions := (sessions m)(username := None)\<rparr>
      | None \<Rightarrow> m)"

text \<open>
  The process around the manager: the module-level \<open>session_manager\<close>, the number of
  \<open>APIClient\<close> objects constructed so far, and the calls of \<open>client.login\<close> in order
  (client, username, password, whether it succeeded).
\<close>

record runtime =
  session_manager :: SessionManager
  clients_created :: nat
  login_calls :: "(nat \<times> string \<times> string \<times> bool) list"

datatype exn = Exception string

text \<open>
  Lines 78 to 96 of \<open>get_or_create_session\<close>: construct a client, log in, register the
  session on success and raise otherwise. \<open>m\<close> is the registry as the lines above left it.
\<close>

definition create_session ::
  "portal \<Rightarrow> int \<Rightarrow> string \<Rightarrow> string \<Rightarrow> SessionManager \<Rightarrow> runtime
     \<Rightarrow> (exn + nat \<times> bool) \<times> runtime" where
  "create_session p now username password m rt =
     (let c = clients_created rt;
          (success, error) = login p username password;
          rt' = rt\<lparr>clients_created := Suc c,
                   login_calls := login_calls rt @ [(c, username, password, success)]\<rparr>
      in if success
         then (Inr (c, True),
               rt'\<lparr>session_manager := m\<lparr>sessions := (sessions m)(username \<mapsto>
                  \<lparr>client = c, si_username = username, si_password = password,
                   login_time = now, last_used = now, is_valid = True\<rparr>)\<rparr>\<rparr>)
         else (Inl (Exception (''Login failed: '' @ str_optional error)),
               rt'\<lparr>session_manager := m\<rparr>))"

definition get_or_create_session ::
  "portal \<Rightarrow> int \<Rightarrow> string \<Rightarrow> string \<Rightarrow> runtime \<Rightarrow> (exn + nat \<times> bool) \<times> runtime" where
  "get_or_create_session p now username password rt =
     (let m = cleanup_sessions now (session_manager rt) in
      case sessions m username of
        Some session_info \<Rightarrow>
          if \<not> is_expired now session_info (max_age_minutes m) \<and> is_valid session_info
               \<and> si_password session_info = password
          then (Inr (client session_info, False),
                rt\<lparr>session_manager :=
                     m\<lparr>sessions := (sessions m)(username \<mapsto> session_info\<lparr>last_used := now\<rparr>)\<rparr>\<rparr>)
          else create_session p now username password
                 (m\<lparr>sessions := (sessions m)(username := None)\<rparr>) rt
      | None \<Rightarrow> create_session p now username password m rt)"

text \<open>The process at start: the default manager, no client constructed, no login made.\<close>

definition initial_runtime :: runtime where
  "initial_runtime = \<lparr>session_manager = new_session_manager, clients_created = 0, login_calls = []\<rparr>"

text \<open>Every registered session belongs to a client whose login succeeded.\<close>

definition registry_logged_in :: "runtime \<Rightarrow> bool" where
  "registry_logged_in rt =
     (\<forall>u si. sessions (session_manager rt) u = Some si \<longrightarrow>
        (client si, u, si_password si, True) \<in> set (login_calls rt))"

text \<open>
  The test of lines 61 to 67 as the caller meets it: after the sweep an entry for the
  username is there, is not expired, is valid and holds the same password.
\<close>

definition reusable :: "int \<Rightarrow> string \<Rightarrow> string \<Rightarrow> SessionManager \<Rightarrow> bool" where
  "reusable now username password m =
     (case sessions (cleanup_sessions now m) username of
        Some si \<Rightarrow> \<not> is_expired now si (max_age_minutes m) \<and> is_valid si \<and> si_password si = password
      | None \<Rightarrow> False)"

section \<open>Python values\<close>

text \<open>
  What \<open>json.loads\<close> returns and what the fields of a record hold: \<open>None\<close>, a
  \<open>bool\<close>, an \<open>int\<close>, a \<open>float\<close>, a \<open>str\<close>, a \<open>list\<close> or a \<open>dict\<close> with string
  keys. A float is modelled by the rational number it stands for: the model is exact
  where binary floating point rounds, and has no infinity and no NaN.
\<close>

datatype pyval =
    PNone
  | PBool bool
  | PInt int
  | PFloat rat
  | PStr string
  | PList "pyval list"
  | PDict "(string \<times> pyval) list"

datatype pyerr = AttributeError | TypeError | ValueError

text \<open>Truth value of an object, as \<open>if x:\<close> tests it.\<close>

fun truthy :: "pyval \<Rightarrow> bool" where
  "truthy PNone = False"
| "truthy (PBool b) = b"
| "truthy (PInt n) = (n \<noteq> 0)"
| "truthy (PFloat x) = (x \<noteq> 0)"
| "truthy (PStr s) = (s \<noteq> [])"
| "truthy (PList xs) = (xs \<noteq> [])"
| "truthy (PDict kvs) = (kvs \<noteq> [])"

text \<open>
  \<open>x.get(key, default)\<close>: only a \<open>dict\<close> has the method, on anything else the
  attribute lookup raises \<open>AttributeError\<close>.
\<close>

fun py_get :: "pyval \<Rightarrow> string \<Rightarrow> pyval \<Rightarrow> pyerr + pyval" where
  "py_get (PDict kvs) key dflt =
     Inr (case map_of kvs key of Some v \<Rightarrow> v | None \<Rightarrow> dflt)"
| "py_get x key dflt = Inl AttributeError"

text \<open>
  \<open>for x in v\<close>: the elements of a list, the keys of a dict, the characters of a string;
  anything else is not iterable.
\<close>

fun py_iter :: "pyval \<Rightarrow> pyerr + pyval list" where
  "py_iter (PList xs) = Inr xs"
| "py_iter (PDict kvs) = Inr (map (\<lambda>(k, v). PStr k) kvs)"
| "py_iter (PStr s) = Inr (map (\<lambda>c. PStr [c]) s)"
| "py_iter x = Inl TypeError"

text \<open>Sequencing of steps that may raise, and a loop whose body may raise.\<close>

definition bind :: "pyerr + 'a \<Rightarrow> ('a \<Rightarrow> pyerr + 'b) \<Rightarrow> pyerr + 'b" where
  "bind m f = (case m of Inl e \<Rightarrow> Inl e | Inr v \<Rightarrow> f v)"

fun for_each :: "('a \<Rightarrow> 's \<Rightarrow> pyerr + 's) \<Rightarrow> 'a list \<Rightarrow> 's \<Rightarrow> pyerr + 's" where
  "for_each body [] s = Inr s"
| "for_each body (x # xs) s = bind (body x s) (for_each body xs)"

subsection \<open>Characters, digits and numbers\<close>

definition is_digit :: "char \<Rightarrow> bool" where
  "is_digit c = (c \<in> set ''0123456789'')"

definition digit_value :: "char \<Rightarrow> nat" where
  "digit_value c = of_char c - 48"

definition digit_char :: "nat \<Rightarrow> char" where
  "digit_char d = ''0123456789'' ! d"

definition nat_of_digits :: "string \<Rightarrow> nat" where
  "nat_of_digits s = foldl (\<lambda>n c. 10 * n + digit_value c) 0 s"

fun str_nat :: "nat \<Rightarrow> string" where
  "str_nat n = (if n < 10 then [digit_char n] else str_nat (n div 10) @ [digit_char (n mod 10)])"

declare str_nat.simps [simp del]

definition str_int :: "int \<Rightarrow> string" where
  "str_int n = (if n < 0 then ''-'' @ str_nat (nat (- n)) else str_nat (nat n))"

text \<open>
  Whitespace as \<open>str.strip()\<close> and the pattern \<open>\s\<close> know it in the Latin-1 range:
  tab to carriage return, the four separators 28 to 31, space, next line (133) and the
  no-break space (160).
\<close>

definition is_space :: "char \<Rightarrow> bool" where
  "is_space c = (of_char c \<in> set [9, 10, 11, 12, 13, 28, 29, 30, 31, 32, 133, 160 :: nat])"

definition strip :: "string \<Rightarrow> string" where
  "strip s = rev (dropWhile is_space (rev (dropWhile is_space s)))"

text \<open>\<open>s.replace(c, new)\<close> for a pattern \<open>c\<close> of one character.\<close>

definition replace_char :: "char \<Rightarrow> string \<Rightarrow> string \<Rightarrow> string" where
  "replace_char c new s = concat (map (\<lambda>x. if x = c then new else [x]) s)"

text \<open>\<open>s.split(' ')[0]\<close>: the text before the first space.\<close>

definition first_word :: "string \<Rightarrow> string" where
  "first_word s = takeWhile (\<lambda>c. c \<noteq> CHR '' '') s"

text \<open>
  \<open>s.lower()\<close> on the letters A to Z. No other Latin-1 character becomes an ASCII
  letter in lower case, so a test \<open>needle in s.lower()\<close> with an ASCII needle is as in
  Python.
\<close>

definition lower_char :: "char \<Rightarrow> char" where
  "lower_char c =
     (case map_of (zip ''ABCDEFGHIJKLMNOPQRSTUVWXYZ'' ''abcdefghijklmnopqrstuvwxyz'') c of
        Some l \<Rightarrow> l | None \<Rightarrow> c)"

definition lower :: "string \<Rightarrow> string" where
  "lower s = map lower_char s"

text \<open>\<open>sep.join(xs)\<close>.\<close>

fun join :: "string \<Rightarrow> string list \<Rightarrow> string" where
  "join sep [] = []"
| "join sep [x] = x"
| "join sep (x # y # ys) = x @ sep @ join sep (y # ys)"

text \<open>\<open>s or default\<close> on strings.\<close>

definition or_else :: "string \<Rightarrow> string \<Rightarrow> string" where
  "or_else s dflt = (if s = [] then dflt else s)"

subsection \<open>float(), int(), str() and the format .2f\<close>

text \<open>
  \<open>float(s)\<close> on a string: surrounding whitespace is dropped, then an optional sign,
  digits with an optional point and an optional exponent are read. The words for
  infinity and NaN, and underscores between digits, are outside the model and count as
  malformed.
\<close>

definition split_digits :: "string \<Rightarrow> string \<times> string" where
  "split_digits s = (takeWhile is_digit s, dropWhile is_digit s)"

definition parse_exponent :: "string \<Rightarrow> int option" where
  "parse_exponent s =
     (case s of
        [] \<Rightarrow> Some 0
      | e # rest \<Rightarrow>
          if e = CHR ''e'' \<or> e = CHR ''E'' then
            (let (neg, ds) = (case rest of
                                [] \<Rightarrow> (False, [])
                              | c # cs \<Rightarrow> if c = CHR ''-'' then (True, cs)
                                          else if c = CHR ''+'' then (False, cs)
                                          else (False, rest))
             in if ds \<noteq> [] \<and> list_all is_digit ds
                then Some (if neg then - int (nat_of_digits ds) else int (nat_of_digits ds))
                else None)
          else None)"

definition parse_unsigned :: "string \<Rightarrow> rat option" where
  "parse_unsigned s =
     (let (ip, r1) = split_digits s;
          (fp, r2) = (case r1 of
                        [] \<Rightarrow> ([], [])
                      | c # cs \<Rightarrow> if c = CHR ''.'' then split_digits cs else ([], r1))
      in if ip = [] \<and> fp = [] then None
         else (case parse_exponent r2 of
                 None \<Rightarrow> None
               | Some e \<Rightarrow>
                   Some (of_nat (nat_of_digits (ip @ fp)) / 10 ^ length fp
                           * (if e < 0 then 1 / 10 ^ nat (- e) else 10 ^ nat e))))"

definition float_of_string :: "string \<Rightarrow> pyerr + rat" where
  "float_of_string s =
     (let t = strip s;
          (neg, body) = (case t of
                           [] \<Rightarrow> (False, [])
                         | c # cs \<Rightarrow> if c = CHR ''-'' then (True, cs)
                                     else if c = CHR ''+'' then (False, cs)
                                     else (False, t))
      in case parse_unsigned body of
           None \<Rightarrow> Inl ValueError
         | Some x \<Rightarrow> Inr (if neg then - x else x))"

text \<open>\<open>float(x)\<close> on an object.\<close>

fun py_float :: "pyval \<Rightarrow> pyerr + rat" where
  "py_float (PStr s) = float_of_string s"
| "py_float (PInt n) = Inr (of_int n)"
| "py_float (PFloat x) = Inr x"
| "py_float (PBool b) = Inr (if b then 1 else 0)"
| "py_float x = Inl TypeError"

text \<open>
  \<open>f"{x:.2f}"\<close>: two decimals, rounded to the nearest with ties to the even digit; a
  negative number keeps its sign when it rounds to zero.
\<close>

definition round_half_even :: "rat \<Rightarrow> int" where
  "round_half_even x =
     (let f = \<lfloor>x\<rfloor>; r = x - of_int f
      in if r < 1 / 2 then f else if r > 1 / 2 then f + 1 else if even f then f else f + 1)"

definition format_2f :: "rat \<Rightarrow> string" where
  "format_2f x =
     (let n = nat (round_half_even (\<bar>x\<bar> * 100))
      in (if x < 0 then ''-'' else '''') @ str_nat (n div 100) @ ''.''
           @ [digit_char (n mod 100 div 10), digit_char (n mod 10)])"

text \<open>
  \<open>str(x)\<close>, which is also what an f-string prints. \<open>repr\<close> is the library's text for
  a float, a list or a dict, an input of the model.
\<close>

fun py_str :: "(pyval \<Rightarrow> string) \<Rightarrow> pyval \<Rightarrow> string" where
  "py_str repr (PStr s) = s"
| "py_str repr (PInt n) = str_int n"
| "py_str repr PNone = ''None''"
| "py_str repr (PBool b) = (if b then ''True'' else ''False'')"
| "py_str repr x = repr x"

text \<open>
  \<open>s.isdigit()\<close>: not empty and only digits; in the Latin-1 range the superscripts two,
  three and one (178, 179, 185) are digits as well. \<open>int(s)\<close> reads decimal digits only
  and raises \<open>ValueError\<close> on a superscript.
\<close>

definition isdigit :: "string \<Rightarrow> bool" where
  "isdigit s = (s \<noteq> [] \<and> list_all (\<lambda>c. is_digit c \<or> of_char c \<in> set [178, 179, 185 :: nat]) s)"

definition int_of_digits :: "string \<Rightarrow> pyerr + int" where
  "int_of_digits s = (if list_all is_digit s then Inr (int (nat_of_digits s)) else Inl ValueError)"

section \<open>The data classes (models.py)\<close>

record AccountCredentials =
  cred_username :: string
  cred_password :: string

text \<open>
  The fields annotated \<open>Any\<close>, and \<open>last_recharge_date\<close>, which is assigned whatever the
  response holds under \<open>Date\<close>, are Python values; the other fields only ever hold strings.
\<close>

record AccountData =
  username :: string
  status :: string
  error_details :: string
  activation_date :: string
  validity_days_remaining :: pyval
  current_balance :: pyval
  last_recharge_amount :: pyval
  last_recharge_date :: pyval
  service_details :: string
  secondary_numbers :: string
  main_consumption :: string
  mobile_internet_consumption :: string
  secondary_consumption :: string
  subscription_date :: string
  validity_date :: string

text \<open>\<open>AccountData(username=u, status=s, error_details=e)\<close>; the rest takes its default.\<close>

definition new_account_data :: "string \<Rightarrow> string \<Rightarrow> string \<Rightarrow> AccountData" where
  "new_account_data u s e =
     \<lparr>username = u, status = s, error_details = e,
      activation_date = ''Not Found'',
      validity_days_remaining = PStr ''Not Found'',
      current_balance = PStr ''Not Found'',
      last_recharge_amount = PStr ''Not Found'',
      last_recharge_date = PStr ''Not Found'',
      service_details = ''None'',
      secondary_numbers = ''None'',
      main_consumption = ''Not Found'',
      mobile_internet_consumption = ''Not Found'',
      secondary_consumption = ''Not Found'',
      subscription_date = ''Not Found'',
      validity_date = ''Not Found''\<rparr>"

text \<open>\<open>AccountData(username=u)\<close>, as \<open>process_account\<close> creates the record.\<close>

definition account_data_for :: "string \<Rightarrow> AccountData" where
  "account_data_for u = new_account_data u ''Error'' ''''"

text \<open>\<open>to_dict\<close>: the fields in the order of their declaration.\<close>

definition to_dict :: "AccountData \<Rightarrow> (string \<times> pyval) list" where
  "to_dict a =
     [(''username'', PStr (username a)),
      (''status'', PStr (status a)),
      (''error_details'', PStr (error_details a)),
      (''activation_date'', PStr (activation_date a)),
      (''validity_days_remaining'', validity_days_remaining a),
      (''current_balance'', current_balance a),
      (''last_recharge_amount'', last_recharge_amount a),
      (''last_recharge_date'', last_recharge_date a),
      (''service_details'', PStr (service_details a)),
      (''secondary_numbers'', PStr (secondary_numbers a)),
      (''main_consumption'', PStr (main_consumption a)),
      (''mobile_internet_consumption'', PStr (mobile_internet_consumption a)),
      (''secondary_consumption'', PStr (secondary_consumption a)),
      (''subscription_date'', PStr (subscription_date a)),
      (''validity_date'', PStr (validity_date a))]"

text \<open>The data fields: every field but \<open>username\<close>, \<open>status\<close> and \<open>error_details\<close>.\<close>

definition data_fields :: "AccountData \<Rightarrow> (string \<times> pyval) list" where
  "data_fields a =
     filter (\<lambda>(key, val). key \<notin> set [''error_details'', ''status'', ''username'']) (to_dict a)"

definition is_sentinel :: "pyval \<Rightarrow> bool" where
  "is_sentinel val = (val = PStr ''API Error'' \<or> val = PStr ''Not Found'')"

record APIResponse =
  success :: bool
  data :: "pyval option"
  error :: "string option"
  api_status_code :: "int option"
  raw_response :: "string option"

record ProcessingResult =
  total_accounts :: nat
  successful :: nat
  partial :: nat
  failed :: nat
  results :: "AccountData list"



section \<open>APIClient.make_api_request (api_client.py)\<close>

text \<open>
  The libraries the request handling calls, as inputs of the model: \<open>decode\<close> is what
  \<open>parse_json_safely\<close> gets out of a non-empty body (\<open>json.loads\<close>, then the search for an
  embedded object), \<open>None\<close> when neither parses; \<open>error_text\<close> is the stripped text of
  the first element of class error, alert or message that BeautifulSoup finds in a page;
  \<open>repr\<close> is the text of a float, a list or a dict.
\<close>

record library =
  decode :: "string \<Rightarrow> pyval option"
  error_text :: "string \<Rightarrow> string option"
  repr :: "pyval \<Rightarrow> string"

definition parse_json_safely :: "library \<Rightarrow> string \<Rightarrow> pyval option" where
  "parse_json_safely lib json_text = (if json_text = [] then None else decode lib json_text)"

definition failure :: "string \<Rightarrow> APIResponse" where
  "failure msg =
     \<lparr>success = False, data = None, error = Some msg, api_status_code = None,
      raw_response = None\<rparr>"

text \<open>\<open>if password\<close> on an \<open>Optional[str]\<close>.\<close>

definition given :: "string option \<Rightarrow> bool" where
  "given password = (case password of None \<Rightarrow> False | Some p \<Rightarrow> p \<noteq> [])"

definition is_html :: "response \<Rightarrow> bool" where
  "is_html r =
     (py_in ''text/html'' (lower (content_type r))
        \<or> py_in ''<html'' (lower (take 1000 (resp_text r))))"

text \<open>The branches of \<open>make_api_request\<close> once the response has passed \<open>raise_for_status\<close>.\<close>

definition classify ::
  "library \<Rightarrow> response \<Rightarrow> string option \<Rightarrow> int \<Rightarrow> APIResponse" where
  "classify lib r password retry_count =
     (if is_html r \<and> given password \<and> retry_count < 2
      then \<lparr>success = False, data = None,
            error = Some ''Session expired - HTML response received'',
            api_status_code = Some (status_code r), raw_response = Some (resp_text r)\<rparr>
      else
        (case parse_json_safely lib (resp_text r) of
           Some parsed_data \<Rightarrow>
             if truthy parsed_data
             then \<lparr>success = True, data = Some parsed_data, error = None,
                   api_status_code = Some (status_code r), raw_response = Some (resp_text r)\<rparr>
             else if is_html r
             then \<lparr>success = False, data = None,
                   error = Some (''HTML Error: '' @
                     (case error_text lib (resp_text r) of
                        Some t \<Rightarrow> t | None \<Rightarrow> ''Received HTML instead of JSON'')),
                   api_status_code = Some (status_code r), raw_response = Some (resp_text r)\<rparr>
             else \<lparr>success = False, data = None,
                   error = Some (''Unexpected content type: '' @ lower (content_type r)),
                   api_status_code = Some (status_code r), raw_response = Some (resp_text r)\<rparr>
         | None \<Rightarrow>
             if is_html r
             then \<lparr>success = False, data = None,
                   error = Some (''HTML Error: '' @
                     (case error_text lib (resp_text r) of
                        Some t \<Rightarrow> t | None \<Rightarrow> ''Received HTML instead of JSON'')),
                   api_status_code = Some (status_code r), raw_response = Some (resp_text r)\<rparr>
             else \<lparr>success = False, data = None,
                   error = Some (''Unexpected content type: '' @ lower (content_type r)),
                   api_status_code = Some (status_code r), raw_response = Some (resp_text r)\<rparr>))"

text \<open>
  \<open>make_api_request\<close> for the outcome \<open>h\<close> of the GET or POST. An error status raises
  \<open>HTTPError\<close>, a \<open>RequestException\<close>.
\<close>

definition make_api_request ::
  "library \<Rightarrow> http \<Rightarrow> string \<Rightarrow> string \<Rightarrow> string option \<Rightarrow> int \<Rightarrow> APIResponse" where
  "make_api_request lib h url description password retry_count =
     (case h of
        TimedOut e \<Rightarrow> failure (''Timeout fetching '' @ description @ '' from API: '' @ url)
      | RequestFailed e \<Rightarrow>
          failure (''Error fetching '' @ description @ '' from API: '' @ url @ '' - '' @ e)
      | Crashed e \<Rightarrow>
          failure (''Unexpected error fetching '' @ description @ '' from API: '' @ url
                     @ '' - '' @ e)
      | Responded r \<Rightarrow>
          (case status_error r of
             Some e \<Rightarrow>
               failure (''Error fetching '' @ description @ '' from API: '' @ url @ '' - '' @ e)
           | None \<Rightarrow> classify lib r password retry_count))"

text \<open>The caller's test \<open>not resp.success and "session" in resp.error.lower()\<close>.\<close>

definition signals_session_expiry :: "APIResponse \<Rightarrow> bool" where
  "signals_session_expiry resp =
     (\<not> success resp \<and> py_in ''session'' (lower (str_optional (error resp))))"

section \<open>extract_api_data (scraper.py)\<close>

subsection \<open>Stage 1: the consumption response\<close>

text \<open>
  What the loops over services, details and secondaries carry along: the two consumption
  fields of the record, the set \<open>secondary_numbers\<close> (as the list of the values added to
  it) and the list \<open>secondary_consumptions\<close>.
\<close>

record walk =
  main :: string
  mobile :: string
  numbers :: "pyval list"
  consumptions :: "string list"

text \<open>\<open>float(v) / d if v else 0\<close>.\<close>

definition scaled :: "pyval \<Rightarrow> rat \<Rightarrow> pyerr + rat" where
  "scaled v d = (if truthy v then bind (py_float v) (\<lambda>x. Inr (x / d)) else Inr 0)"

text \<open>What \<open>except (ValueError, TypeError)\<close> catches.\<close>

definition caught :: "pyerr \<Rightarrow> bool" where
  "caught e = (e = ValueError \<or> e = TypeError)"

text \<open>Lines 107 to 121: a detail of the services U-share Main and Mobile Internet.\<close>

definition main_block :: "library \<Rightarrow> pyval \<Rightarrow> pyval \<Rightarrow> walk \<Rightarrow> pyerr + walk" where
  "main_block lib service_name detail w =
     bind (py_get detail ''ConsumptionValue'' (PStr ''0'')) (\<lambda>consumption_mb.
     bind (py_get detail ''PackageValue'' (PStr ''0'')) (\<lambda>package_gb.
     bind (py_get detail ''DescriptionValue'' (PStr '''')) (\<lambda>description.
       (case scaled consumption_mb 1024 of
          Inr consumption_gb \<Rightarrow>
            (let text = format_2f consumption_gb @ '' GB/'' @ py_str (repr lib) package_gb
                          @ '' GB'';
                 w1 = (if main w = ''Not Found'' then w\<lparr>main := text\<rparr> else w)
             in Inr (if service_name = PStr ''Mobile Internet''
                          \<or> description = PStr ''Mobile Internet''
                     then w1\<lparr>mobile := text\<rparr> else w1))
        | Inl e \<Rightarrow>
            if caught e
            then Inr (if main w = ''Not Found'' then w\<lparr>main := ''API Error''\<rparr> else w)
            else Inl e))))"

text \<open>\<open>set.add\<close> needs a hashable value: a list or a dict raises \<open>TypeError\<close>.\<close>

fun hashable :: "pyval \<Rightarrow> bool" where
  "hashable (PList xs) = False"
| "hashable (PDict kvs) = False"
| "hashable x = True"

text \<open>Lines 128 to 157: one entry of \<open>SecondaryValue\<close>.\<close>

definition secondary_step :: "library \<Rightarrow> string \<Rightarrow> pyval \<Rightarrow> walk \<Rightarrow> pyerr + walk" where
  "secondary_step lib user secondary w =
     bind (py_get secondary ''SecondaryNumberValue'' PNone) (\<lambda>number.
     bind (py_get secondary ''ConsumptionValue'' (PStr ''0'')) (\<lambda>consumption_val.
     bind (py_get secondary ''QuotaValue'' (PStr ''0'')) (\<lambda>quota_val.
     bind (py_get secondary ''ConsumptionUnitValue'' (PStr ''MB'')) (\<lambda>consumption_unit.
     bind (py_get secondary ''QuotaUnitValue'' (PStr ''GB'')) (\<lambda>quota_unit.
       (case bind (if consumption_unit = PStr ''MB'' then scaled consumption_val 1024
                   else scaled consumption_val 1)
               (\<lambda>consumption_gb.
                 let consumption_str = format_2f consumption_gb @ '' GB/''
                       @ py_str (repr lib) quota_val @ '' '' @ py_str (repr lib) quota_unit
                 in if number = PStr ''Mobile Internet''
                    then Inr (w\<lparr>mobile := consumption_str\<rparr>)
                    else if truthy number \<and> number \<noteq> PStr user
                    then (if hashable number
                          then Inr (w\<lparr>numbers := numbers w @ [number],
                                      consumptions := consumptions w
                                        @ [py_str (repr lib) number @ '': '' @ consumption_str]\<rparr>)
                          else Inl TypeError)
                    else Inr w) of
          Inr w' \<Rightarrow> Inr w'
        | Inl e \<Rightarrow>
            if caught e
            then Inr (if number = PStr ''Mobile Internet''
                      then w\<lparr>mobile := ''API Error''\<rparr>
                      else if truthy number \<and> number \<noteq> PStr user
                      then w\<lparr>consumptions := consumptions w
                                @ [py_str (repr lib) number @ '': API Error'']\<rparr>
                      else w)
            else Inl e))))))"

text \<open>The body of \<open>for detail in details\<close>.\<close>

definition detail_step :: "library \<Rightarrow> string \<Rightarrow> pyval \<Rightarrow> pyval \<Rightarrow> walk \<Rightarrow> pyerr + walk" where
  "detail_step lib user service_name detail w =
     bind (if service_name \<in> set [PStr ''U-share Main'', PStr ''Mobile Internet'']
           then main_block lib service_name detail w else Inr w) (\<lambda>w1.
       if service_name = PStr ''U-share Main''
       then bind (py_get detail ''SecondaryValue'' (PList [])) (\<lambda>secondaries.
              if truthy secondaries
              then bind (py_iter secondaries) (\<lambda>xs. for_each (secondary_step lib user) xs w1)
              else Inr w1)
       else Inr w1)"

text \<open>The body of \<open>for service in services\<close>.\<close>

definition service_step :: "library \<Rightarrow> string \<Rightarrow> pyval \<Rightarrow> walk \<Rightarrow> pyerr + walk" where
  "service_step lib user service w =
     bind (py_get service ''ServiceNameValue'' (PStr '''')) (\<lambda>service_name.
     bind (py_get service ''ServiceDetailsInformationValue'' (PList [])) (\<lambda>details.
     bind (py_iter details) (\<lambda>ds. for_each (detail_step lib user service_name) ds w)))"

text \<open>
  \<open>", ".join(sorted(secondary_numbers))\<close>: with strings only, the distinct strings in
  order. A value that is not a string makes \<open>sorted\<close> raise \<open>TypeError\<close> when it is
  compared with a string, and \<open>join\<close> raise \<open>TypeError\<close> otherwise.
\<close>

fun the_str :: "pyval \<Rightarrow> string option" where
  "the_str (PStr s) = Some s"
| "the_str x = None"

definition sorted_numbers :: "pyval list \<Rightarrow> pyerr + string list" where
  "sorted_numbers ns =
     (if list_all (\<lambda>n. the_str n \<noteq> None) ns
      then Inr (sort (remdups (map (\<lambda>n. case the_str n of Some s \<Rightarrow> s | None \<Rightarrow> []) ns)))
      else Inl TypeError)"

text \<open>\<open>x.replace('$', '').strip()\<close>: only a string has \<open>replace\<close>.\<close>

fun balance_text :: "pyval \<Rightarrow> pyerr + string" where
  "balance_text (PStr s) = Inr (strip (replace_char CHR ''$'' [] s))"
| "balance_text x = Inl AttributeError"

text \<open>
  Lines 91 to 160, the \<open>try\<close> block: the balance, the joined secondary numbers, the
  state of the walk and the joined secondary consumptions, or the exception raised.
\<close>

definition parse_consumption ::
  "library \<Rightarrow> string \<Rightarrow> pyval \<Rightarrow> walk \<Rightarrow> pyerr + (pyval \<times> string \<times> walk \<times> string)" where
  "parse_consumption lib user d w0 =
     bind (py_get d ''CurrentBalanceValue'' (PStr '''')) (\<lambda>raw.
     bind (balance_text raw) (\<lambda>balance_str.
     bind (if balance_str \<noteq> []
           then bind (float_of_string balance_str) (\<lambda>x. Inr (PFloat x))
           else Inr (PStr ''API Error'')) (\<lambda>balance.
     bind (py_get d ''ServiceInformationValue'' (PList [])) (\<lambda>services.
     bind (py_iter services) (\<lambda>ss.
     bind (for_each (service_step lib user) ss w0) (\<lambda>w.
     bind (sorted_numbers (numbers w)) (\<lambda>names.
       Inr (balance, or_else (join '', '' names) ''None'', w,
            or_else (join '', '' (consumptions w)) ''None''))))))))"

definition consumption_failed :: "AccountData \<Rightarrow> AccountData" where
  "consumption_failed a =
     a\<lparr>current_balance := PStr ''API Error'', secondary_numbers := ''API Error'',
       main_consumption := ''API Error'', mobile_internet_consumption := ''API Error'',
       secondary_consumption := ''API Error''\<rparr>"

text \<open>\<open>resp.success and resp.data\<close>: the data when the test holds.\<close>

definition payload :: "APIResponse \<Rightarrow> pyval option" where
  "payload resp =
     (if success resp
      then (case data resp of None \<Rightarrow> None | Some d \<Rightarrow> if truthy d then Some d else None)
      else None)"

definition consumption_stage ::
  "library \<Rightarrow> APIResponse \<Rightarrow> AccountData \<Rightarrow> AccountData \<times> string list" where
  "consumption_stage lib resp a =
     (case payload resp of
        Some d \<Rightarrow>
          (case parse_consumption lib (username a) d
                   \<lparr>main = main_consumption a, mobile = mobile_internet_consumption a,
                    numbers = [], consumptions = []\<rparr> of
              Inr (balance, nums, w, cons) \<Rightarrow>
                (a\<lparr>current_balance := balance, secondary_numbers := nums,
                   main_consumption := main w, mobile_internet_consumption := mobile w,
                   secondary_consumption := cons\<rparr>, [])
            | Inl e \<Rightarrow> (consumption_failed a, [''Consumption API Parse Error'']))
      | None \<Rightarrow> (consumption_failed a, [''Consumption API Fetch Error'']))"

subsection \<open>Stage 2: the expiry response\<close>

text \<open>\<open>int(days) if days.isdigit() else "API Error"\<close> for \<open>days = str(v).split(' ')[0]\<close>.\<close>

definition days_of :: "library \<Rightarrow> pyval \<Rightarrow> pyerr + pyval" where
  "days_of lib v =
     (let days = first_word (py_str (repr lib) v)
      in if isdigit days then bind (int_of_digits days) (\<lambda>n. Inr (PInt n))
         else Inr (PStr ''API Error''))"

text \<open>Lines 195 to 205; a \<open>bool\<close> is an \<open>int\<close> for \<open>isinstance\<close>.\<close>

fun parse_expiry :: "library \<Rightarrow> pyval \<Rightarrow> pyerr + pyval" where
  "parse_expiry lib (PInt n) = days_of lib (PInt n)"
| "parse_expiry lib (PBool b) = days_of lib (PBool b)"
| "parse_expiry lib (PStr s) = days_of lib (PStr s)"
| "parse_expiry lib (PDict kvs) =
     bind (py_get (PDict kvs) ''ExpiryDateValue'' (PStr '''')) (days_of lib)"
| "parse_expiry lib x = Inr (PStr ''API Error'')"

text \<open>\<open>resp.success and resp.data is not None\<close> guards this stage.\<close>

definition expiry_stage ::
  "library \<Rightarrow> APIResponse \<Rightarrow> AccountData \<Rightarrow> AccountData \<times> string list" where
  "expiry_stage lib resp a =
     (case (if success resp then data resp else None) of
        Some expiry_data \<Rightarrow>
          (case parse_expiry lib expiry_data of
             Inr v \<Rightarrow> (a\<lparr>validity_days_remaining := v\<rparr>, [])
           | Inl e \<Rightarrow> (a\<lparr>validity_days_remaining := PStr ''API Error''\<rparr>,
                       [''Expiry API Parse Error'']))
      | None \<Rightarrow> (a\<lparr>validity_days_remaining := PStr ''API Error''\<rparr>,
                  [''Expiry API Fetch Error'']))"

subsection \<open>Stage 3: the last recharge\<close>

definition parse_recharge :: "pyval \<Rightarrow> pyerr + (pyval \<times> pyval)" where
  "parse_recharge d =
     bind (py_get d ''Amount'' PNone) (\<lambda>amount.
     bind (if truthy amount then bind (py_float amount) (\<lambda>x. Inr (PFloat x))
           else Inr (PStr ''API Error'')) (\<lambda>amount_value.
     bind (py_get d ''Date'' (PStr ''API Error'')) (\<lambda>date.
       Inr (amount_value, date))))"

definition recharge_stage :: "APIResponse \<Rightarrow> AccountData \<Rightarrow> AccountData \<times> string list" where
  "recharge_stage resp a =
     (case payload resp of
        Some d \<Rightarrow>
          (case parse_recharge d of
             Inr (amount, date) \<Rightarrow>
               (a\<lparr>last_recharge_amount := amount, last_recharge_date := date\<rparr>, [])
           | Inl e \<Rightarrow>
               (a\<lparr>last_recharge_amount := PStr ''API Error'',
                  last_recharge_date := PStr ''API Error''\<rparr>, [''Recharge API Parse Error'']))
      | None \<Rightarrow>
          (a\<lparr>last_recharge_amount := PStr ''API Error'',
             last_recharge_date := PStr ''API Error''\<rparr>, [''Recharge API Fetch Error'']))"

subsection \<open>Stage 4: the services response\<close>

text \<open>
  \<open>re.search(r'(\d+)\s*GB', content, re.IGNORECASE)\<close>: group 1 of the leftmost match, a
  run of digits followed by optional whitespace and the letters G and B in either case.
\<close>

fun search_gb :: "string \<Rightarrow> string option" where
  "search_gb [] = None"
| "search_gb (c # cs) =
     (if is_digit c
         \<and> lower (take 2 (dropWhile is_space (dropWhile is_digit cs))) = ''gb''
      then Some (c # takeWhile is_digit cs)
      else search_gb cs)"

text \<open>\<open>re.search(r'/(\d+)\s*GB', text)\<close>: the same after a slash, in upper case only.\<close>

fun search_slash_gb :: "string \<Rightarrow> string option" where
  "search_slash_gb [] = None"
| "search_slash_gb (c # cs) =
     (if c = CHR ''/'' \<and> takeWhile is_digit cs \<noteq> []
         \<and> take 2 (dropWhile is_space (dropWhile is_digit cs)) = ''GB''
      then Some (takeWhile is_digit cs)
      else search_slash_gb cs)"

text \<open>
  The loop over \<open>[content_en, name_en, description]\<close>: the first match wins; a content
  that is true and not a string makes \<open>re.search\<close> raise \<open>TypeError\<close>.
\<close>

fun first_gb :: "pyval list \<Rightarrow> pyerr + string option" where
  "first_gb [] = Inr None"
| "first_gb (content # rest) =
     (if truthy content
      then (case the_str content of
              None \<Rightarrow> Inl TypeError
            | Some s \<Rightarrow> (case search_gb s of Some g \<Rightarrow> Inr (Some g) | None \<Rightarrow> first_gb rest))
      else first_gb rest)"

fun is_dict :: "pyval \<Rightarrow> bool" where
  "is_dict (PDict kvs) = True"
| "is_dict x = False"

text \<open>Lines 277 to 295: the package size found in \<open>ActiveBundle\<close>, if any.\<close>

definition bundle_package :: "(string \<times> pyval) list \<Rightarrow> pyerr + string option" where
  "bundle_package service =
     (case map_of service ''ActiveBundle'' of
        None \<Rightarrow> Inr None
      | Some bundle \<Rightarrow>
          if truthy bundle \<and> is_dict bundle
          then bind (py_get bundle ''Service'' (PDict [])) (\<lambda>svc.
               bind (py_get svc ''ServiceInfo'' (PDict [])) (\<lambda>bundle_info.
                 if truthy bundle_info
                 then bind (py_get bundle_info ''ContentEn'' (PStr '''')) (\<lambda>content_en.
                      bind (py_get bundle_info ''NameEn'' (PStr '''')) (\<lambda>name_en.
                      bind (py_get bundle_info ''Description'' (PStr '''')) (\<lambda>description.
                        first_gb [content_en, name_en, description])))
                 else Inr None))
          else Inr None)"

text \<open>\<open>'ushare' in service_name.lower()\<close>: only a string has \<open>lower\<close>.\<close>

definition names_ushare :: "pyval \<Rightarrow> pyerr + bool" where
  "names_ushare service_name =
     (if truthy service_name
      then (case the_str service_name of
              None \<Rightarrow> Inl AttributeError
            | Some s \<Rightarrow> Inr (py_in ''ushare'' (lower s)))
      else Inr False)"

text \<open>The body of \<open>for service in services_resp.data\<close>.\<close>

fun ushare_step :: "string \<Rightarrow> pyval \<Rightarrow> string list \<Rightarrow> pyerr + string list" where
  "ushare_step main_text (PDict service) ushare_details =
     bind (py_get (PDict service) ''Name'' (PStr '''')) (\<lambda>service_name.
     bind (names_ushare service_name) (\<lambda>is_ushare.
       if is_ushare
       then bind (bundle_package service) (\<lambda>found.
              let package_size =
                    (if found = None \<and> main_text \<noteq> ''Not Found''
                     then search_slash_gb main_text else found)
              in Inr (ushare_details @
                       [case package_size of
                          Some found_size \<Rightarrow> ''USHARE: '' @ found_size @ ''GB''
                        | None \<Rightarrow> ''USHARE'']))
       else Inr ushare_details))"
| "ushare_step main_text x ushare_details = Inr ushare_details"

fun parse_services :: "string \<Rightarrow> pyval \<Rightarrow> pyerr + string" where
  "parse_services main_text (PList xs) =
     bind (for_each (ushare_step main_text) xs [])
       (\<lambda>ushare_details. Inr (or_else (join '', '' ushare_details) ''None''))"
| "parse_services main_text x = Inr ''None''"

definition services_stage :: "APIResponse \<Rightarrow> AccountData \<Rightarrow> AccountData \<times> string list" where
  "services_stage resp a =
     (case payload resp of
        Some d \<Rightarrow>
          (case parse_services (main_consumption a) d of
             Inr details \<Rightarrow> (a\<lparr>service_details := details\<rparr>, [])
           | Inl e \<Rightarrow> (a\<lparr>service_details := ''API Error''\<rparr>, [''Services API Parse Error'']))
      | None \<Rightarrow> (a\<lparr>service_details := ''API Error''\<rparr>, [''Services API Fetch Error'']))"

subsection \<open>The four stages in sequence\<close>

text \<open>
  What the outside world gives to one call of \<open>process_account\<close>: the instant of the call,
  the portal as the login sees it, the URL of the consumption endpoint (it carries the
  time), the outcome of the four data requests, and the two pages scraped afterwards.
\<close>

datatype 'a fetched = Fetched 'a | FetchRaised string

text \<open>
  The account page as \<open>extract_html_field\<close> reads it: the stripped text of the element of
  class \<open>activation-date\<close> (\<open>None\<close> when there is none, or when reading it raises) and
  group 1 of the date pattern in that text.
\<close>

record account_scrape =
  element_text :: "string option"
  date_group :: "string option"

text \<open>
  The region of the manage-services page, when the selector finds it: group 1 of the two
  labelled patterns and the list \<open>findall\<close> returns for the date pattern.
\<close>

record services_scrape =
  subscription_group :: "string option"
  validity_group :: "string option"
  date_matches :: "string list"

record exchange =
  clock :: int
  portal_seen :: portal
  consumption_url :: string
  consumption_http :: http
  expiry_http :: http
  recharge_http :: http
  services_http :: http
  account_page :: "account_scrape fetched"
  manage_services_page :: "services_scrape option fetched"

definition EXPIRY :: string where
  "EXPIRY = ''https://www.alfa.com.lb/en/account/getexpirydate''"

definition LAST_RECHARGE :: string where
  "LAST_RECHARGE = ''https://www.alfa.com.lb/en/account/getlastrecharge''"

definition SERVICES :: string where
  "SERVICES = ''https://www.alfa.com.lb/en/account/manage-services/getmyservices''"

text \<open>
  \<open>extract_api_data\<close>: each request is made once, with the password and the default
  \<open>retry_count = 0\<close>. The record and the module's session manager are updated in place;
  the model returns both.
\<close>

definition extract_api_data ::
  "library \<Rightarrow> exchange \<Rightarrow> AccountData \<Rightarrow> string \<Rightarrow> SessionManager
     \<Rightarrow> AccountData \<times> SessionManager" where
  "extract_api_data lib x account_data password m =
     (let consumption_resp = make_api_request lib (consumption_http x) (consumption_url x)
                               ''Consumption'' (Some password) 0;
          (a1, e1) = consumption_stage lib consumption_resp account_data;
          expiry_resp = make_api_request lib (expiry_http x) EXPIRY
                          ''Expiry Date'' (Some password) 0;
          (a2, e2) = expiry_stage lib expiry_resp a1;
          recharge_resp = make_api_request lib (recharge_http x) LAST_RECHARGE
                            ''Last Recharge'' (Some password) 0;
          (a3, e3) = recharge_stage recharge_resp a2;
          services_resp = make_api_request lib (services_http x) SERVICES
                            ''My Services'' (Some password) 0;
          (a4, e4) = services_stage services_resp a3;
          errors = e1 @ e2 @ e3 @ e4;
          session_expired = (signals_session_expiry consumption_resp
                               \<or> signals_session_expiry expiry_resp
                               \<or> signals_session_expiry recharge_resp
                               \<or> signals_session_expiry services_resp);
          a5 = (if errors \<noteq> []
                then (if error_details a4 \<noteq> []
                      then a4\<lparr>error_details := error_details a4 @ '', '' @ join '', '' errors\<rparr>
                      else a4\<lparr>error_details := join '', '' errors\<rparr>)
                else a4)
      in (a5, if session_expired then invalidate_session (username account_data) m else m))"

section \<open>The two pages (scraper.py)\<close>

definition extract_html_field :: "account_scrape \<Rightarrow> string" where
  "extract_html_field sc =
     (case element_text sc of
        None \<Rightarrow> ''Not Found''
      | Some t \<Rightarrow>
          if t = [] then ''Not Found''
          else (case date_group sc of Some g \<Rightarrow> g | None \<Rightarrow> t))"

text \<open>Appending a tag to \<open>error_details\<close>, as both \<open>except\<close> clauses do.\<close>

definition add_tag :: "string \<Rightarrow> AccountData \<Rightarrow> AccountData" where
  "add_tag tag a =
     (if error_details a \<noteq> []
      then a\<lparr>error_details := error_details a @ '', '' @ tag\<rparr>
      else a\<lparr>error_details := tag\<rparr>)"

definition extract_manage_services_data ::
  "services_scrape option fetched \<Rightarrow> AccountData \<Rightarrow> AccountData" where
  "extract_manage_services_data page a =
     (case page of
        FetchRaised e \<Rightarrow> add_tag ''Manage-Services Extraction Error'' a
      | Fetched None \<Rightarrow> a
      | Fetched (Some sc) \<Rightarrow>
          (let a1 = (case subscription_group sc of
                       Some g \<Rightarrow> a\<lparr>subscription_date := strip g\<rparr> | None \<Rightarrow> a);
               a2 = (case validity_group sc of
                       Some g \<Rightarrow> a1\<lparr>validity_date := strip g\<rparr> | None \<Rightarrow> a1)
           in if subscription_date a2 = ''Not Found'' \<or> validity_date a2 = ''Not Found''
              then (case date_matches sc of
                      [] \<Rightarrow> a2
                    | [d] \<Rightarrow> if subscription_date a2 = ''Not Found''
                             then a2\<lparr>subscription_date := d\<rparr> else a2
                    | d0 # d1 # ds \<Rightarrow>
                        (let a3 = (if subscription_date a2 = ''Not Found''
                                   then a2\<lparr>subscription_date := d0\<rparr> else a2)
                         in if validity_date a3 = ''Not Found''
                            then a3\<lparr>validity_date := d1\<rparr> else a3))
              else a2))"

definition extract_html_data :: "exchange \<Rightarrow> AccountData \<Rightarrow> AccountData" where
  "extract_html_data x a =
     extract_manage_services_data (manage_services_page x)
       (case account_page x of
          FetchRaised e \<Rightarrow> add_tag ''HTML Extraction Error'' a
        | Fetched sc \<Rightarrow>
            (let activation = extract_html_field sc
             in if activation \<noteq> ''Not Found'' then a\<lparr>activation_date := activation\<rparr> else a))"

section \<open>process_account (scraper.py)\<close>

text \<open>Lines 452 to 462: the final status.\<close>

definition has_sentinel :: "AccountData \<Rightarrow> bool" where
  "has_sentinel a = list_ex (\<lambda>(key, val). is_sentinel val) (data_fields a)"

definition determine_final_status :: "AccountData \<Rightarrow> AccountData" where
  "determine_final_status a =
     (if has_sentinel a
      then (let a1 = a\<lparr>status := ''Partial Success''\<rparr>
            in if error_details a1 = []
               then a1\<lparr>error_details := ''Some data could not be retrieved''\<rparr> else a1)
      else a\<lparr>status := ''Success'', error_details := ''''\<rparr>)"

definition process_account ::
  "library \<Rightarrow> exchange \<Rightarrow> AccountCredentials \<Rightarrow> runtime \<Rightarrow> AccountData \<times> runtime" where
  "process_account lib x credentials rt =
     (let account_data = account_data_for (cred_username credentials)
      in case get_or_create_session (portal_seen x) (clock x) (cred_username credentials)
                (cred_password credentials) rt of
           (Inr (api_client, is_new_session), rt1) \<Rightarrow>
             (let (a1, m1) = extract_api_data lib x account_data (cred_password credentials)
                               (session_manager rt1);
                  a2 = extract_html_data x a1
              in (determine_final_status a2, rt1\<lparr>session_manager := m1\<rparr>))
         | (Inl (Exception msg), rt1) \<Rightarrow>
             (account_data\<lparr>status := ''Error'',
                error_details := (if msg \<noteq> [] then ''Unhandled Exception: '' @ msg
                                  else ''Unknown processing error occurred'')\<rparr>,
              rt1\<lparr>session_manager :=
                    invalidate_session (cred_username credentials) (session_manager rt1)\<rparr>))"

section \<open>The batch orchestrator (telegram_bot.py)\<close>

text \<open>
  What awaiting one task of \<open>asyncio.gather(*tasks, return_exceptions=True)\<close> gives: the
  record the task returned, or the exception it raised, with \<open>str(e)\<close>.
\<close>

datatype outcome = Returned AccountData | Raised string

text \<open>
  \<open>process_batch_concurrent\<close> for the batch that starts at position \<open>start\<close> of the
  submitted list. \<open>run k account\<close> is the outcome of the task of the account at position
  \<open>k\<close>; \<open>gather_raises start\<close> is the exception that \<open>gather\<close> itself raises for this batch,
  if any, which the outer \<open>except\<close> clause turns into one error record per account.
\<close>

definition process_batch_concurrent ::
  "(nat \<Rightarrow> AccountCredentials \<Rightarrow> outcome) \<Rightarrow> (nat \<Rightarrow> string option) \<Rightarrow> nat
     \<Rightarrow> AccountCredentials list \<Rightarrow> AccountData list" where
  "process_batch_concurrent run gather_raises start batch =
     (case gather_raises start of
        Some e \<Rightarrow>
          map (\<lambda>account. new_account_data (cred_username account) ''Error''
                             (''Batch processing failed: '' @ e)) batch
      | None \<Rightarrow>
          map (\<lambda>(i, result).
                 case result of
                   Raised e \<Rightarrow> new_account_data (cred_username (batch ! i)) ''Error''
                                 (''Processing failed: '' @ e)
                 | Returned r \<Rightarrow> r)
              (enumerate 0 (map (\<lambda>(i, account). run (start + i) account) (enumerate 0 batch))))"




subsection \<open>Example data\<close>

text \<open>
  A portal that lets every login through, one that rejects the credentials, a session
  that logged in at instant 0 and was last used six minutes later, and a manager
  constructed as \<open>SessionManager(max_age_minutes=5, max_idle_minutes=10)\<close> holding a
  session that logged in at instant 0 and was reused four minutes later, within its
  \<open>max_age_minutes\<close>.
\<close>

definition page :: "string \<Rightarrow> string \<Rightarrow> http" where
  "page url body =
     Responded \<lparr>resp_url = url, status_code = 200, status_error = None,
                content_type = ''text/html; charset=utf-8'', resp_text = body\<rparr>"

definition welcoming_portal :: portal where
  "welcoming_portal =
     \<lparr>login_page = page ''https://www.alfa.com.lb/en/account/login'' ''<form></form>'',
      form_error = None,
      login_post = (\<lambda>username password. page ''https://www.alfa.com.lb/en/account'' ''Dashboard''),
      dashboard = page ''https://www.alfa.com.lb/en/account'' ''Current Balance''\<rparr>"

definition refusing_portal :: portal where
  "refusing_portal =
     \<lparr>login_page = page ''https://www.alfa.com.lb/en/account/login'' ''<form></form>'',
      form_error = None,
      login_post = (\<lambda>username password.
         page ''https://www.alfa.com.lb/en/login'' ''Invalid username or password''),
      dashboard = page ''https://www.alfa.com.lb/en/login'' ''<form></form>''\<rparr>"

definition example_session :: SessionInfo where
  "example_session =
     \<lparr>client = 0, si_username = ''03123456'', si_password = ''secret'',
      login_time = 0, last_used = 360000000, is_valid = True\<rparr>"




definition fresh_manager :: SessionManager where
  "fresh_manager = new_session_manager\<lparr>sessions := [''03123456'' \<mapsto> example_session]\<rparr>"

definition example_runtime :: "SessionManager \<Rightarrow> runtime" where
  "example_runtime m =
     \<lparr>session_manager = m, clients_created = 1,
      login_calls = [(0, ''03123456'', ''secret'', True)]\<rparr>"

definition first_session :: SessionInfo where
  "first_session =
     \<lparr>client = 0, si_username = ''03123456'', si_password = ''secret'',
      login_time = 0, last_used = 0, is_valid = True\<rparr>"

definition logged_in_runtime :: runtime where
  "logged_in_runtime =
     \<lparr>session_manager = new_session_manager\<lparr>sessions := [''03123456'' \<mapsto> first_session]\<rparr>,
      clients_created = 1,
      login_calls = [(0, ''03123456'', ''secret'', True)]\<rparr>"


text \<open>
  For the extraction pipeline: libraries that find nothing to decode and no error element
  in a page, a page of the portal served where JSON was expected, and the response of a
  data endpoint with a given parsed body.
\<close>

definition silent_library :: library where
  "silent_library = \<lparr>decode = (\<lambda>body. None), error_text = (\<lambda>body. None), repr = (\<lambda>v. [])\<rparr>"


definition json_response :: "pyval \<Rightarrow> APIResponse" where
  "json_response d =
     \<lparr>success = True, data = Some d, error = None, api_status_code = Some 200,
      raw_response = Some []\<rparr>"

text \<open>
  One account, and two calls of \<open>process_account\<close> for it in which no data request is
  answered and neither page can be fetched: in the first the portal lets the login
  through, in the second it rejects the credentials.
\<close>

definition example_credentials :: AccountCredentials where
  "example_credentials = \<lparr>cred_username = ''03123456'', cred_password = ''secret''\<rparr>"

definition unreachable_exchange :: exchange where
  "unreachable_exchange =
     \<lparr>clock = 0, portal_seen = welcoming_portal,
      consumption_url = ''https://www.alfa.com.lb/en/account/getconsumption?_=1762214400000'',
      consumption_http = TimedOut ''Read timed out.'',
      expiry_http = TimedOut ''Read timed out.'',
      recharge_http = TimedOut ''Read timed out.'',
      services_http = TimedOut ''Read timed out.'',
      account_page = FetchRaised ''Read timed out.'',
      manage_services_page = FetchRaised ''Read timed out.''\<rparr>"

definition refused_exchange :: exchange where
  "refused_exchange = unreachable_exchange\<lparr>portal_seen := refusing_portal\<rparr>"

text \<open>
  Parsed bodies on which the parsing of a stage raises: a balance and a recharge amount
  that are no numbers (\<open>float\<close> raises \<open>ValueError\<close>), an expiry that is the superscript
  two, a digit for \<open>isdigit\<close> that \<open>int\<close> rejects with \<open>ValueError\<close>, and a service whose
  name is a number (\<open>lower\<close> raises \<open>AttributeError\<close>).
\<close>

definition malformed_consumption :: pyval where
  "malformed_consumption = PDict [(''CurrentBalanceValue'', PStr ''N/A'')]"

definition malformed_expiry :: pyval where
  "malformed_expiry = PStr [CHR 0xB2]"

definition malformed_recharge :: pyval where
  "malformed_recharge = PDict [(''Amount'', PStr ''N/A''), (''Date'', PStr ''01/11/2026'')]"

definition malformed_services :: pyval where
  "malformed_services = PList [PDict [(''Name'', PInt 5)]]"

text \<open>
  The tasks of a batch in which the first account is processed while no data request is
  answered and every other task raises.
\<close>

definition example_run :: "nat \<Rightarrow> AccountCredentials \<Rightarrow> outcome" where
  "example_run k account =
     (if k = 0
      then Returned (fst (process_account silent_library unreachable_exchange account
                            initial_runtime))
      else Raised ''Connection reset by peer'')"


section \<open>Properties of the session manager\<close>

lemma cleanup_lookup:
  "sessions (cleanup_sessions now m) u =
     (case sessions m u of None \<Rightarrow> None
      | Some si \<Rightarrow> if to_remove now m si then None else Some si)"
  by (simp add: cleanup_sessions_def)

lemma cleanup_config [simp]:
  "max_age_minutes (cleanup_sessions now m) = max_age_minutes m"
  "max_idle_minutes (cleanup_sessions now m) = max_idle_minutes m"
  by (simp_all add: cleanup_sessions_def)

lemma login_failure_reason: "\<not> fst (login p u pw) \<Longrightarrow> \<exists>reason. snd (login p u pw) = Some reason"
  by (cases "login_page p"; cases "login_post p u pw"; cases "dashboard p")
     (auto simp: login_def raise_for_status_def request_failed_def unexpected_error_def
           split: option.splits sum.splits if_splits)

lemma login_success_no_error: "fst (login p u pw) \<Longrightarrow> snd (login p u pw) = None"
  by (cases "login_page p"; cases "login_post p u pw"; cases "dashboard p")
     (auto simp: login_def raise_for_status_def request_failed_def unexpected_error_def
           split: option.splits sum.splits if_splits)

lemma create_session_result:
  "create_session p now u pw m rt =
     (if fst (login p u pw)
      then (Inr (clients_created rt, True),
            \<lparr>session_manager = m\<lparr>sessions := (sessions m)(u \<mapsto>
                \<lparr>client = clients_created rt, si_username = u, si_password = pw,
                 login_time = now, last_used = now, is_valid = True\<rparr>)\<rparr>,
             clients_created = Suc (clients_created rt),
             login_calls = login_calls rt @ [(clients_created rt, u, pw, True)]\<rparr>)
      else (Inl (Exception (''Login failed: '' @ str_optional (snd (login p u pw)))),
            \<lparr>session_manager = m,
             clients_created = Suc (clients_created rt),
             login_calls = login_calls rt @ [(clients_created rt, u, pw, False)]\<rparr>))"
  by (cases rt) (simp add: create_session_def Let_def split: prod.splits)

lemma acquire_entry_after:
  assumes "get_or_create_session p now u pw rt = (Inr (c, n), rt')"
  shows "\<exists>si. sessions (session_manager rt') u = Some si \<and> client si = c \<and> is_valid si
            \<and> si_password si = pw \<and> last_used si = now
            \<and> max_age_minutes (session_manager rt') = max_age_minutes (session_manager rt)
            \<and> max_idle_minutes (session_manager rt') = max_idle_minutes (session_manager rt)"
  using assms
  by (auto simp: get_or_create_session_def Let_def create_session_result is_expired_def
           split: option.splits if_splits)

lemma acquire_without_entry:
  assumes "sessions (cleanup_sessions now (session_manager rt)) u = None"
  shows "get_or_create_session p now u pw rt
           = create_session p now u pw (cleanup_sessions now (session_manager rt)) rt"
  using assms by (simp add: get_or_create_session_def Let_def)

lemma create_session_keeps_invariant:
  assumes "registry_logged_in (rt\<lparr>session_manager := m\<rparr>)"
  shows "registry_logged_in (snd (create_session p now u pw m rt))"
  using assms by (auto simp: registry_logged_in_def create_session_result)

lemma cleanup_keeps_invariant:
  assumes "registry_logged_in rt"
  shows "registry_logged_in (rt\<lparr>session_manager := cleanup_sessions now (session_manager rt)\<rparr>)"
  using assms
  by (auto simp: registry_logged_in_def cleanup_lookup split: option.splits if_splits)

lemma acquire_keeps_invariant:
  assumes "registry_logged_in rt"
  shows "registry_logged_in (snd (get_or_create_session p now u pw rt))"
proof -
  let ?m = "cleanup_sessions now (session_manager rt)"
  have swept: "registry_logged_in (rt\<lparr>session_manager := ?m\<rparr>)"
    by (rule cleanup_keeps_invariant [OF assms])
  show ?thesis
  proof (cases "sessions ?m u")
    case None
    then show ?thesis
      using create_session_keeps_invariant [OF swept]
      by (simp add: get_or_create_session_def Let_def)
  next
    case (Some si)
    have dropped: "registry_logged_in (rt\<lparr>session_manager := ?m\<lparr>sessions := (sessions ?m)(u := None)\<rparr>\<rparr>)"
      using swept by (auto simp: registry_logged_in_def)
    have touched: "registry_logged_in
        (rt\<lparr>session_manager := ?m\<lparr>sessions := (sessions ?m)(u \<mapsto> si\<lparr>last_used := now\<rparr>)\<rparr>\<rparr>)"
      using swept Some by (auto simp: registry_logged_in_def)
    show ?thesis
      using Some touched create_session_keeps_invariant [OF dropped]
      by (simp add: get_or_create_session_def Let_def)
  qed
qed

lemma acquire_not_reusable:
  assumes "\<not> reusable now u pw (session_manager rt)"
  shows "get_or_create_session p now u pw rt
           = create_session p now u pw
               ((cleanup_sessions now (session_manager rt))
                  \<lparr>sessions := (sessions (cleanup_sessions now (session_manager rt)))(u := None)\<rparr>) rt"
proof (cases "sessions (cleanup_sessions now (session_manager rt)) u")
  case None
  then have "(sessions (cleanup_sessions now (session_manager rt)))(u := None)
               = sessions (cleanup_sessions now (session_manager rt))"
    by (simp add: fun_upd_idem)
  with None show ?thesis
    by (simp add: get_or_create_session_def Let_def)
next
  case (Some si)
  with assms show ?thesis
    by (auto simp: get_or_create_session_def Let_def reusable_def)
qed

lemma acquire_handed_client:
  assumes inv: "registry_logged_in rt"
    and res: "fst (get_or_create_session p now u pw rt) = Inr (c, n)"
  shows "(c, u, pw, True) \<in> set (login_calls (snd (get_or_create_session p now u pw rt)))"
proof (cases "reusable now u pw (session_manager rt)")
  case False
  show ?thesis
    using res unfolding acquire_not_reusable [OF False]
    by (simp add: create_session_result split: if_splits)
next
  case True
  then obtain si where si: "sessions (cleanup_sessions now (session_manager rt)) u = Some si"
      "\<not> is_expired now si (max_age_minutes (session_manager rt))" "is_valid si" "si_password si = pw"
    by (auto simp: reusable_def split: option.splits)
  from si(1) have "sessions (session_manager rt) u = Some si"
    by (auto simp: cleanup_lookup split: option.splits if_splits)
  with inv have "(client si, u, si_password si, True) \<in> set (login_calls rt)"
    by (simp add: registry_logged_in_def)
  with si res show ?thesis
    by (simp add: get_or_create_session_def Let_def)
qed

lemma login_welcoming: "login welcoming_portal u pw = (True, None)"
  by (simp add: login_def welcoming_portal_def page_def raise_for_status_def ACCOUNT_def)

lemma login_refusing:
  "login refusing_portal ''03123456'' pw = (False, Some ''Invalid credentials'')"
  by (simp add: login_def refusing_portal_def page_def raise_for_status_def ACCOUNT_def)

section \<open>Claims about the session manager\<close>

text \<open>
  Claim C3. Two successive calls of \<open>get_or_create_session\<close> for the same credentials,
  the second no later than \<open>max_age_minutes\<close> after the session's login and no later than
  \<open>max_idle_minutes\<close> after its last use, with nothing in between: the second call returns
  the client of the first with \<open>is_new = False\<close>, sets \<open>last_used\<close> to the instant of the
  call, and neither constructs a client nor logs in.
\<close>

theorem acquire_twice_reuses_session:
  assumes first: "get_or_create_session p1 t1 u pw rt = (Inr (c1, new1), rt1)"
    and entry: "sessions (session_manager rt1) u = Some si"
    and age: "t2 - login_time si \<le> timedelta_minutes (max_age_minutes (session_manager rt1))"
    and idle: "t2 - last_used si \<le> timedelta_minutes (max_idle_minutes (session_manager rt1))"
  shows "client si = c1 \<and> last_used si = t1
     \<and> fst (get_or_create_session p2 t2 u pw rt1) = Inr (c1, False)
     \<and> sessions (session_manager (snd (get_or_create_session p2 t2 u pw rt1))) u
           = Some (si\<lparr>last_used := t2\<rparr>)
     \<and> login_calls (snd (get_or_create_session p2 t2 u pw rt1)) = login_calls rt1
     \<and> clients_created (snd (get_or_create_session p2 t2 u pw rt1)) = clients_created rt1"
proof -
  from acquire_entry_after [OF first] entry
  have si: "client si = c1" "is_valid si" "si_password si = pw" "last_used si = t1"
    by auto
  have keep: "\<not> to_remove t2 (session_manager rt1) si"
    using age idle si(2) by (simp add: to_remove_def is_expired_def is_idle_def)
  have swept: "sessions (cleanup_sessions t2 (session_manager rt1)) u = Some si"
    using entry keep by (simp add: cleanup_lookup)
  have fresh: "\<not> is_expired t2 si (max_age_minutes (session_manager rt1))"
    using age by (simp add: is_expired_def)
  show ?thesis
    using swept fresh si by (simp add: get_or_create_session_def Let_def)
qed

theorem acquire_twice_reuses_session_witness:
  "get_or_create_session welcoming_portal 0 ''03123456'' ''secret'' initial_runtime
     = (Inr (0, True), logged_in_runtime)
   \<and> sessions (session_manager logged_in_runtime) ''03123456'' = Some first_session
   \<and> 60000000 - login_time first_session
        \<le> timedelta_minutes (max_age_minutes (session_manager logged_in_runtime))
   \<and> 60000000 - last_used first_session
        \<le> timedelta_minutes (max_idle_minutes (session_manager logged_in_runtime))
   \<and> fst (get_or_create_session refusing_portal 60000000 ''03123456'' ''secret'' logged_in_runtime)
        = Inr (0, False)
   \<and> sessions (session_manager (snd (get_or_create_session refusing_portal 60000000
          ''03123456'' ''secret'' logged_in_runtime))) ''03123456''
        = Some (first_session\<lparr>last_used := 60000000\<rparr>)
   \<and> login_calls (snd (get_or_create_session refusing_portal 60000000
          ''03123456'' ''secret'' logged_in_runtime)) = [(0, ''03123456'', ''secret'', True)]"
proof -
  have h1: "get_or_create_session welcoming_portal 0 ''03123456'' ''secret'' initial_runtime
              = (Inr (0, True), logged_in_runtime)"
    by (simp add: get_or_create_session_def cleanup_sessions_def initial_runtime_def
          new_session_manager_def create_session_result login_welcoming
          logged_in_runtime_def first_session_def)
  have h2: "sessions (session_manager logged_in_runtime) ''03123456'' = Some first_session"
    by (simp add: logged_in_runtime_def)
  have h3: "60000000 - login_time first_session
              \<le> timedelta_minutes (max_age_minutes (session_manager logged_in_runtime))"
    by (simp add: logged_in_runtime_def first_session_def new_session_manager_def
          timedelta_minutes_def)
  have h4: "60000000 - last_used first_session
              \<le> timedelta_minutes (max_idle_minutes (session_manager logged_in_runtime))"
    by (simp add: logged_in_runtime_def first_session_def new_session_manager_def
          timedelta_minutes_def)
  show ?thesis
    using h1 h2 h3 h4 acquire_twice_reuses_session [OF h1 h2 h3 h4, of refusing_portal]
    by (simp add: logged_in_runtime_def)
qed

text \<open>
  Claim C4. \<open>invalidate_session\<close> leaves an entry of the username in the registry with
  \<open>is_valid = False\<close> (an absent entry stays absent) and touches no other entry; the next
  \<open>get_or_create_session\<close> for that username constructs a new client and logs in with it,
  and when that login succeeds it returns the new client with \<open>is_new = True\<close> and
  registers a fresh, valid session.
\<close>

theorem invalidate_then_acquire_logs_in:
  "sessions (invalidate_session u (session_manager rt)) u
     = map_option (\<lambda>si. si\<lparr>is_valid := False\<rparr>) (sessions (session_manager rt) u)
   \<and> (\<forall>v. v \<noteq> u \<longrightarrow>
         sessions (invalidate_session u (session_manager rt)) v = sessions (session_manager rt) v)
   \<and> login_calls (snd (get_or_create_session p now u pw
          (rt\<lparr>session_manager := invalidate_session u (session_manager rt)\<rparr>)))
        = login_calls rt @ [(clients_created rt, u, pw, fst (login p u pw))]
   \<and> (fst (login p u pw) \<longrightarrow>
        fst (get_or_create_session p now u pw
              (rt\<lparr>session_manager := invalidate_session u (session_manager rt)\<rparr>))
          = Inr (clients_created rt, True)
        \<and> sessions (session_manager (snd (get_or_create_session p now u pw
              (rt\<lparr>session_manager := invalidate_session u (session_manager rt)\<rparr>)))) u
          = Some \<lparr>client = clients_created rt, si_username = u, si_password = pw,
                  login_time = now, last_used = now, is_valid = True\<rparr>)"
proof -
  let ?rt = "rt\<lparr>session_manager := invalidate_session u (session_manager rt)\<rparr>"
  have marked: "sessions (invalidate_session u m) u
                  = map_option (\<lambda>si. si\<lparr>is_valid := False\<rparr>) (sessions m u)" for m
    by (simp add: invalidate_session_def split: option.splits)
  have others: "\<forall>v. v \<noteq> u \<longrightarrow> sessions (invalidate_session u m) v = sessions m v" for m
    by (simp add: invalidate_session_def split: option.splits)
  have swept: "sessions (cleanup_sessions now (session_manager ?rt)) u = None"
    by (cases "sessions (session_manager rt) u")
       (simp_all add: cleanup_lookup marked to_remove_def)
  have eq: "get_or_create_session p now u pw ?rt
              = create_session p now u pw (cleanup_sessions now (session_manager ?rt)) ?rt"
    by (rule acquire_without_entry [OF swept])
  show ?thesis
    unfolding eq using marked [of "session_manager rt"] others [of "session_manager rt"]
    by (simp add: create_session_result)
qed

theorem invalidate_then_acquire_logs_in_witness:
  "sessions (invalidate_session ''03123456'' fresh_manager) ''03123456''
     = Some (example_session\<lparr>is_valid := False\<rparr>)
   \<and> sessions (invalidate_session ''03123456'' fresh_manager) ''70555555''
     = sessions fresh_manager ''70555555''
   \<and> login_calls (snd (get_or_create_session welcoming_portal 420000000 ''03123456'' ''secret''
          ((example_runtime fresh_manager)
             \<lparr>session_manager := invalidate_session ''03123456'' fresh_manager\<rparr>)))
        = [(0, ''03123456'', ''secret'', True), (1, ''03123456'', ''secret'', True)]
   \<and> fst (get_or_create_session welcoming_portal 420000000 ''03123456'' ''secret''
          ((example_runtime fresh_manager)
             \<lparr>session_manager := invalidate_session ''03123456'' fresh_manager\<rparr>))
        = Inr (1, True)"
  using invalidate_then_acquire_logs_in
          [of "''03123456''" "example_runtime fresh_manager" welcoming_portal 420000000 "''secret''"]
  by (simp add: example_runtime_def fresh_manager_def login_welcoming)




text \<open>
  Claim C10. When \<open>get_or_create_session\<close> finds nothing to reuse and the login of the new
  client fails, the call raises \<open>Exception\<close> with the message \<open>Login failed: \<close> followed by
  the reason \<open>login\<close> returned, and the registry holds no entry for the username afterwards.
  The registry still holds only sessions whose login succeeded, and the next call for the
  username, whatever its password, the portal and the instant, logs in again with a new client.
\<close>

theorem failed_login_raises_and_registers_nothing:
  assumes inv: "registry_logged_in rt"
    and stale: "\<not> reusable now u pw (session_manager rt)"
    and failed: "login p u pw = (False, err)"
  shows "(\<exists>reason. err = Some reason
            \<and> fst (get_or_create_session p now u pw rt) = Inl (Exception (''Login failed: '' @ reason)))
     \<and> sessions (session_manager (snd (get_or_create_session p now u pw rt))) u = None
     \<and> registry_logged_in (snd (get_or_create_session p now u pw rt))
     \<and> login_calls (snd (get_or_create_session p' now' u pw'
            (snd (get_or_create_session p now u pw rt))))
         = login_calls rt @ [(clients_created rt, u, pw, False),
                             (Suc (clients_created rt), u, pw', fst (login p' u pw'))]"
proof -
  let ?m = "cleanup_sessions now (session_manager rt)"
  let ?rt' = "snd (get_or_create_session p now u pw rt)"
  from failed have nofst: "\<not> fst (login p u pw)" and err: "snd (login p u pw) = err"
    by simp_all
  from login_failure_reason [OF nofst] err obtain reason where reason: "err = Some reason"
    by auto
  have call: "get_or_create_session p now u pw rt
        = (Inl (Exception (''Login failed: '' @ reason)),
           \<lparr>session_manager = ?m\<lparr>sessions := (sessions ?m)(u := None)\<rparr>,
            clients_created = Suc (clients_created rt),
            login_calls = login_calls rt @ [(clients_created rt, u, pw, False)]\<rparr>)"
    unfolding acquire_not_reusable [OF stale]
    using nofst err reason by (simp add: create_session_result str_optional_def)
  have gone: "sessions (cleanup_sessions now' (session_manager ?rt')) u = None"
    by (simp add: call cleanup_lookup)
  have "login_calls (snd (get_or_create_session p' now' u pw' ?rt'))
          = login_calls ?rt' @ [(clients_created ?rt', u, pw', fst (login p' u pw'))]"
    unfolding acquire_without_entry [OF gone] by (simp add: create_session_result)
  then have next_call: "login_calls (snd (get_or_create_session p' now' u pw' ?rt'))
          = login_calls rt @ [(clients_created rt, u, pw, False),
                              (Suc (clients_created rt), u, pw', fst (login p' u pw'))]"
    by (simp add: call)
  show ?thesis
    using reason call next_call acquire_keeps_invariant [OF inv, of p now u pw]
    by simp
qed

theorem failed_login_raises_and_registers_nothing_witness:
  "registry_logged_in (example_runtime fresh_manager)
   \<and> \<not> reusable 420000000 ''03123456'' ''wrong'' (session_manager (example_runtime fresh_manager))
   \<and> login refusing_portal ''03123456'' ''wrong'' = (False, Some ''Invalid credentials'')
   \<and> fst (get_or_create_session refusing_portal 420000000 ''03123456'' ''wrong''
            (example_runtime fresh_manager))
        = Inl (Exception ''Login failed: Invalid credentials'')
   \<and> sessions (session_manager (snd (get_or_create_session refusing_portal 420000000
          ''03123456'' ''wrong'' (example_runtime fresh_manager)))) ''03123456'' = None
   \<and> login_calls (snd (get_or_create_session welcoming_portal 480000000 ''03123456'' ''secret''
          (snd (get_or_create_session refusing_portal 420000000 ''03123456'' ''wrong''
             (example_runtime fresh_manager)))))
        = [(0, ''03123456'', ''secret'', True), (1, ''03123456'', ''wrong'', False),
           (2, ''03123456'', ''secret'', True)]"
proof -
  have h1: "registry_logged_in (example_runtime fresh_manager)"
    by (auto simp: registry_logged_in_def example_runtime_def fresh_manager_def
          example_session_def split: if_splits)
  have h2: "\<not> reusable 420000000 ''03123456'' ''wrong''
              (session_manager (example_runtime fresh_manager))"
    by (simp add: reusable_def example_runtime_def fresh_manager_def cleanup_lookup
          example_session_def split: option.splits)
  have h3: "login refusing_portal ''03123456'' ''wrong'' = (False, Some ''Invalid credentials'')"
    by (rule login_refusing)
  show ?thesis
    using h1 h2 h3
      failed_login_raises_and_registers_nothing
        [OF h1 h2 h3, of welcoming_portal 480000000 "''secret''"]
    by (simp add: example_runtime_def login_welcoming)
qed
section \<open>Claims about the data-endpoint call\<close>




section \<open>Claims about the fields of a record\<close>

lemma consumption_stage_failed:
  "snd (consumption_stage lib resp a) \<noteq> []
     \<Longrightarrow> fst (consumption_stage lib resp a) = consumption_failed a"
  by (auto simp add: consumption_stage_def split: option.splits sum.splits prod.splits)

lemma expiry_stage_failed:
  "snd (expiry_stage lib resp a) \<noteq> []
     \<Longrightarrow> fst (expiry_stage lib resp a) = a\<lparr>validity_days_remaining := PStr ''API Error''\<rparr>"
  by (auto simp add: expiry_stage_def split: option.splits sum.splits)

lemma recharge_stage_failed:
  "snd (recharge_stage resp a) \<noteq> []
     \<Longrightarrow> fst (recharge_stage resp a)
           = a\<lparr>last_recharge_amount := PStr ''API Error'',
               last_recharge_date := PStr ''API Error''\<rparr>"
  by (auto simp add: recharge_stage_def split: option.splits sum.splits prod.splits)

lemma services_stage_failed:
  "snd (services_stage resp a) \<noteq> []
     \<Longrightarrow> fst (services_stage resp a) = a\<lparr>service_details := ''API Error''\<rparr>"
  by (auto simp add: services_stage_def split: option.splits sum.splits)

lemma unsuccessful_stages:
  assumes "\<not> success resp"
  shows "snd (consumption_stage lib resp a) = [''Consumption API Fetch Error'']"
    and "snd (expiry_stage lib resp a) = [''Expiry API Fetch Error'']"
    and "snd (recharge_stage resp a) = [''Recharge API Fetch Error'']"
    and "snd (services_stage resp a) = [''Services API Fetch Error'']"
  using assms
  by (simp_all add: consumption_stage_def expiry_stage_def recharge_stage_def
        services_stage_def payload_def)

lemma add_tag_fields [simp]:
  "activation_date (add_tag t a) = activation_date a"
  "subscription_date (add_tag t a) = subscription_date a"
  "validity_date (add_tag t a) = validity_date a"
  by (simp_all add: add_tag_def)

lemma manage_services_keeps_activation [simp]:
  "activation_date (extract_manage_services_data p a) = activation_date a"
  by (simp add: extract_manage_services_data_def Let_def
        split: fetched.splits option.splits list.splits)

lemma account_page_failure_keeps_activation:
  "account_page x = FetchRaised e
     \<Longrightarrow> activation_date (extract_html_data x a) = activation_date a"
  by (simp add: extract_html_data_def)

lemma manage_services_failure_keeps_dates:
  "manage_services_page x = FetchRaised e
     \<Longrightarrow> subscription_date (extract_html_data x a) = subscription_date a
         \<and> validity_date (extract_html_data x a) = validity_date a"
  by (simp add: extract_html_data_def extract_manage_services_data_def Let_def
        split: fetched.splits)

text \<open>
  Claim C8, as the code has it. In a record created by \<open>AccountData(username=u)\<close> the
  data fields hold \<open>Not Found\<close>, except \<open>service_details\<close> and \<open>secondary_numbers\<close>,
  which hold \<open>None\<close>. A stage of \<open>extract_api_data\<close> whose response is unsuccessful
  reports a failure tag, and a stage that reports a failure tag has written \<open>API Error\<close>
  to each of its fields. A stage whose response carries data on which the parsing raises
  reports its parse error tag, writes \<open>API Error\<close> to each of its fields and leaves the
  other fields as they were. When one of the two pages cannot be fetched, the fields read
  from that page are left as they were.
\<close>

theorem new_record_fields_and_stage_failures:
  "data_fields (account_data_for u)
     = [(''activation_date'', PStr ''Not Found''),
        (''validity_days_remaining'', PStr ''Not Found''),
        (''current_balance'', PStr ''Not Found''),
        (''last_recharge_amount'', PStr ''Not Found''),
        (''last_recharge_date'', PStr ''Not Found''),
        (''service_details'', PStr ''None''),
        (''secondary_numbers'', PStr ''None''),
        (''main_consumption'', PStr ''Not Found''),
        (''mobile_internet_consumption'', PStr ''Not Found''),
        (''secondary_consumption'', PStr ''Not Found''),
        (''subscription_date'', PStr ''Not Found''),
        (''validity_date'', PStr ''Not Found'')]
   \<and> (\<not> success resp \<longrightarrow>
         snd (consumption_stage lib resp a) \<noteq> [] \<and> snd (expiry_stage lib resp a) \<noteq> []
         \<and> snd (recharge_stage resp a) \<noteq> [] \<and> snd (services_stage resp a) \<noteq> [])
   \<and> (snd (consumption_stage lib resp a) \<noteq> [] \<longrightarrow>
         current_balance (fst (consumption_stage lib resp a)) = PStr ''API Error''
         \<and> secondary_numbers (fst (consumption_stage lib resp a)) = ''API Error''
         \<and> main_consumption (fst (consumption_stage lib resp a)) = ''API Error''
         \<and> mobile_internet_consumption (fst (consumption_stage lib resp a)) = ''API Error''
         \<and> secondary_consumption (fst (consumption_stage lib resp a)) = ''API Error'')
   \<and> (snd (expiry_stage lib resp a) \<noteq> [] \<longrightarrow>
         validity_days_remaining (fst (expiry_stage lib resp a)) = PStr ''API Error'')
   \<and> (snd (recharge_stage resp a) \<noteq> [] \<longrightarrow>
         last_recharge_amount (fst (recharge_stage resp a)) = PStr ''API Error''
         \<and> last_recharge_date (fst (recharge_stage resp a)) = PStr ''API Error'')
   \<and> (snd (services_stage resp a) \<noteq> [] \<longrightarrow>
         service_details (fst (services_stage resp a)) = ''API Error'')
   \<and> (account_page x = FetchRaised e \<longrightarrow>
         activation_date (extract_html_data x a) = activation_date a)
   \<and> (manage_services_page x = FetchRaised e \<longrightarrow>
         subscription_date (extract_html_data x a) = subscription_date a
         \<and> validity_date (extract_html_data x a) = validity_date a)
   \<and> (payload (resp) = Some (d)
        \<and> parse_consumption lib (username (a)) (d)
            \<lparr>main = main_consumption (a), mobile = mobile_internet_consumption (a),
              numbers = [], consumptions = []\<rparr> = Inl err \<longrightarrow>
        consumption_stage lib (resp) (a)
          = ((a)\<lparr>current_balance := PStr ''API Error'', secondary_numbers := ''API Error'',
               main_consumption := ''API Error'', mobile_internet_consumption := ''API Error'',
               secondary_consumption := ''API Error''\<rparr>,
             [''Consumption API Parse Error'']))
   \<and> (success (resp)
        \<and> data (resp) = Some (d)
        \<and> parse_expiry lib (d) = Inl err \<longrightarrow>
        expiry_stage lib (resp) (a)
          = ((a)\<lparr>validity_days_remaining := PStr ''API Error''\<rparr>,
             [''Expiry API Parse Error'']))
   \<and> (payload (resp) = Some (d)
        \<and> parse_recharge (d) = Inl err \<longrightarrow>
        recharge_stage (resp) (a)
          = ((a)\<lparr>last_recharge_amount := PStr ''API Error'',
               last_recharge_date := PStr ''API Error''\<rparr>,
             [''Recharge API Parse Error'']))
   \<and> (payload (resp) = Some (d)
        \<and> parse_services (main_consumption (a)) (d) = Inl err \<longrightarrow>
        services_stage (resp) (a)
          = ((a)\<lparr>service_details := ''API Error''\<rparr>,
             [''Services API Parse Error'']))"
proof -
  have fields: "data_fields (account_data_for u)
     = [(''activation_date'', PStr ''Not Found''),
        (''validity_days_remaining'', PStr ''Not Found''),
        (''current_balance'', PStr ''Not Found''),
        (''last_recharge_amount'', PStr ''Not Found''),
        (''last_recharge_date'', PStr ''Not Found''),
        (''service_details'', PStr ''None''),
        (''secondary_numbers'', PStr ''None''),
        (''main_consumption'', PStr ''Not Found''),
        (''mobile_internet_consumption'', PStr ''Not Found''),
        (''secondary_consumption'', PStr ''Not Found''),
        (''subscription_date'', PStr ''Not Found''),
        (''validity_date'', PStr ''Not Found'')]"
    by (simp add: data_fields_def to_dict_def account_data_for_def new_account_data_def)
  have old: "data_fields (account_data_for u)
     = [(''activation_date'', PStr ''Not Found''),
        (''validity_days_remaining'', PStr ''Not Found''),
        (''current_balance'', PStr ''Not Found''),
        (''last_recharge_amount'', PStr ''Not Found''),
        (''last_recharge_date'', PStr ''Not Found''),
        (''service_details'', PStr ''None''),
        (''secondary_numbers'', PStr ''None''),
        (''main_consumption'', PStr ''Not Found''),
        (''mobile_internet_consumption'', PStr ''Not Found''),
        (''secondary_consumption'', PStr ''Not Found''),
        (''subscription_date'', PStr ''Not Found''),
        (''validity_date'', PStr ''Not Found'')]
   \<and> (\<not> success resp \<longrightarrow>
         snd (consumption_stage lib resp a) \<noteq> [] \<and> snd (expiry_stage lib resp a) \<noteq> []
         \<and> snd (recharge_stage resp a) \<noteq> [] \<and> snd (services_stage resp a) \<noteq> [])
   \<and> (snd (consumption_stage lib resp a) \<noteq> [] \<longrightarrow>
         current_balance (fst (consumption_stage lib resp a)) = PStr ''API Error''
         \<and> secondary_numbers (fst (consumption_stage lib resp a)) = ''API Error''
         \<and> main_consumption (fst (consumption_stage lib resp a)) = ''API Error''
         \<and> mobile_internet_consumption (fst (consumption_stage lib resp a)) = ''API Error''
         \<and> secondary_consumption (fst (consumption_stage lib resp a)) = ''API Error'')
   \<and> (snd (expiry_stage lib resp a) \<noteq> [] \<longrightarrow>
         validity_days_remaining (fst (expiry_stage lib resp a)) = PStr ''API Error'')
   \<and> (snd (recharge_stage resp a) \<noteq> [] \<longrightarrow>
         last_recharge_amount (fst (recharge_stage resp a)) = PStr ''API Error''
         \<and> last_recharge_date (fst (recharge_stage resp a)) = PStr ''API Error'')
   \<and> (snd (services_stage resp a) \<noteq> [] \<longrightarrow>
         service_details (fst (services_stage resp a)) = ''API Error'')
   \<and> (account_page x = FetchRaised e \<longrightarrow>
         activation_date (extract_html_data x a) = activation_date a)
   \<and> (manage_services_page x = FetchRaised e \<longrightarrow>
         subscription_date (extract_html_data x a) = subscription_date a
         \<and> validity_date (extract_html_data x a) = validity_date a)"
    unfolding fields
    by (simp add: unsuccessful_stages consumption_stage_failed expiry_stage_failed
          recharge_stage_failed services_stage_failed consumption_failed_def
          account_page_failure_keeps_activation manage_services_failure_keeps_dates)
  have p1: "payload (resp) = Some (d)
        \<and> parse_consumption lib (username (a)) (d)
            \<lparr>main = main_consumption (a), mobile = mobile_internet_consumption (a),
              numbers = [], consumptions = []\<rparr> = Inl err \<longrightarrow>
        consumption_stage lib (resp) (a)
          = ((a)\<lparr>current_balance := PStr ''API Error'', secondary_numbers := ''API Error'',
               main_consumption := ''API Error'', mobile_internet_consumption := ''API Error'',
               secondary_consumption := ''API Error''\<rparr>,
             [''Consumption API Parse Error''])"
    by (simp add: consumption_stage_def consumption_failed_def)
  have p2: "success (resp)
        \<and> data (resp) = Some (d)
        \<and> parse_expiry lib (d) = Inl err \<longrightarrow>
        expiry_stage lib (resp) (a)
          = ((a)\<lparr>validity_days_remaining := PStr ''API Error''\<rparr>,
             [''Expiry API Parse Error''])"
    by (simp add: expiry_stage_def)
  have p3: "payload (resp) = Some (d)
        \<and> parse_recharge (d) = Inl err \<longrightarrow>
        recharge_stage (resp) (a)
          = ((a)\<lparr>last_recharge_amount := PStr ''API Error'',
               last_recharge_date := PStr ''API Error''\<rparr>,
             [''Recharge API Parse Error''])"
    by (simp add: recharge_stage_def)
  have p4: "payload (resp) = Some (d)
        \<and> parse_services (main_consumption (a)) (d) = Inl err \<longrightarrow>
        services_stage (resp) (a)
          = ((a)\<lparr>service_details := ''API Error''\<rparr>,
             [''Services API Parse Error''])"
    by (simp add: services_stage_def)
  from old p1 p2 p3 p4 show ?thesis
    by blast
qed

theorem new_record_fields_and_stage_failures_witness:
  "\<not> success (failure ''Timeout fetching Expiry Date from API'')
   \<and> snd (consumption_stage silent_library (failure ''Timeout fetching Expiry Date from API'')
            (account_data_for ''03123456'')) \<noteq> []
   \<and> current_balance (fst (consumption_stage silent_library
         (failure ''Timeout fetching Expiry Date from API'') (account_data_for ''03123456'')))
        = PStr ''API Error''
   \<and> snd (expiry_stage silent_library (failure ''Timeout fetching Expiry Date from API'')
            (account_data_for ''03123456'')) \<noteq> []
   \<and> validity_days_remaining (fst (expiry_stage silent_library
         (failure ''Timeout fetching Expiry Date from API'') (account_data_for ''03123456'')))
        = PStr ''API Error''
   \<and> snd (recharge_stage (failure ''Timeout fetching Expiry Date from API'')
            (account_data_for ''03123456'')) \<noteq> []
   \<and> last_recharge_date (fst (recharge_stage
         (failure ''Timeout fetching Expiry Date from API'') (account_data_for ''03123456'')))
        = PStr ''API Error''
   \<and> snd (services_stage (failure ''Timeout fetching Expiry Date from API'')
            (account_data_for ''03123456'')) \<noteq> []
   \<and> service_details (fst (services_stage
         (failure ''Timeout fetching Expiry Date from API'') (account_data_for ''03123456'')))
        = ''API Error''
   \<and> account_page unreachable_exchange = FetchRaised ''Read timed out.''
   \<and> activation_date (extract_html_data unreachable_exchange (account_data_for ''03123456''))
        = ''Not Found''
   \<and> manage_services_page unreachable_exchange = FetchRaised ''Read timed out.''
   \<and> subscription_date (extract_html_data unreachable_exchange (account_data_for ''03123456''))
        = ''Not Found''
   \<and> payload (json_response malformed_consumption) = Some (malformed_consumption)
   \<and> parse_consumption silent_library (username (account_data_for ''03123456'')) (malformed_consumption)
            \<lparr>main = main_consumption (account_data_for ''03123456''), mobile = mobile_internet_consumption (account_data_for ''03123456''),
              numbers = [], consumptions = []\<rparr> = Inl ValueError
   \<and> consumption_stage silent_library (json_response malformed_consumption) (account_data_for ''03123456'')
          = ((account_data_for ''03123456'')\<lparr>current_balance := PStr ''API Error'', secondary_numbers := ''API Error'',
               main_consumption := ''API Error'', mobile_internet_consumption := ''API Error'',
               secondary_consumption := ''API Error''\<rparr>,
             [''Consumption API Parse Error''])
   \<and> success (json_response malformed_expiry)
   \<and> data (json_response malformed_expiry) = Some (malformed_expiry)
   \<and> parse_expiry silent_library (malformed_expiry) = Inl ValueError
   \<and> expiry_stage silent_library (json_response malformed_expiry) (account_data_for ''03123456'')
          = ((account_data_for ''03123456'')\<lparr>validity_days_remaining := PStr ''API Error''\<rparr>,
             [''Expiry API Parse Error''])
   \<and> payload (json_response malformed_recharge) = Some (malformed_recharge)
   \<and> parse_recharge (malformed_recharge) = Inl ValueError
   \<and> recharge_stage (json_response malformed_recharge) (account_data_for ''03123456'')
          = ((account_data_for ''03123456'')\<lparr>last_recharge_amount := PStr ''API Error'',
               last_recharge_date := PStr ''API Error''\<rparr>,
             [''Recharge API Parse Error''])
   \<and> payload (json_response malformed_services) = Some (malformed_services)
   \<and> parse_services (main_consumption (account_data_for ''03123456'')) (malformed_services) = Inl AttributeError
   \<and> services_stage (json_response malformed_services) (account_data_for ''03123456'')
          = ((account_data_for ''03123456'')\<lparr>service_details := ''API Error''\<rparr>,
             [''Services API Parse Error''])"
proof -
  have w0: "\<not> success (failure ''Timeout fetching Expiry Date from API'')
   \<and> snd (consumption_stage silent_library (failure ''Timeout fetching Expiry Date from API'')
            (account_data_for ''03123456'')) \<noteq> []
   \<and> current_balance (fst (consumption_stage silent_library
         (failure ''Timeout fetching Expiry Date from API'') (account_data_for ''03123456'')))
        = PStr ''API Error''
   \<and> snd (expiry_stage silent_library (failure ''Timeout fetching Expiry Date from API'')
            (account_data_for ''03123456'')) \<noteq> []
   \<and> validity_days_remaining (fst (expiry_stage silent_library
         (failure ''Timeout fetching Expiry Date from API'') (account_data_for ''03123456'')))
        = PStr ''API Error''
   \<and> snd (recharge_stage (failure ''Timeout fetching Expiry Date from API'')
            (account_data_for ''03123456'')) \<noteq> []
   \<and> last_recharge_date (fst (recharge_stage
         (failure ''Timeout fetching Expiry Date from API'') (account_data_for ''03123456'')))
        = PStr ''API Error''
   \<and> snd (services_stage (failure ''Timeout fetching Expiry Date from API'')
            (account_data_for ''03123456'')) \<noteq> []
   \<and> service_details (fst (services_stage
         (failure ''Timeout fetching Expiry Date from API'') (account_data_for ''03123456'')))
        = ''API Error''
   \<and> account_page unreachable_exchange = FetchRaised ''Read timed out.''
   \<and> activation_date (extract_html_data unreachable_exchange (account_data_for ''03123456''))
        = ''Not Found''
   \<and> manage_services_page unreachable_exchange = FetchRaised ''Read timed out.''
   \<and> subscription_date (extract_html_data unreachable_exchange (account_data_for ''03123456''))
        = ''Not Found''"
    proof -
    have h1: "\<not> success (failure ''Timeout fetching Expiry Date from API'')"
      by (simp add: failure_def)
    have h2: "account_page unreachable_exchange = FetchRaised ''Read timed out.''"
      "manage_services_page unreachable_exchange = FetchRaised ''Read timed out.''"
      by (simp_all add: unreachable_exchange_def)
    have h3: "activation_date (account_data_for ''03123456'') = ''Not Found''"
      "subscription_date (account_data_for ''03123456'') = ''Not Found''"
      by (simp_all add: account_data_for_def new_account_data_def)
    show ?thesis
      using h1 h2 h3
        new_record_fields_and_stage_failures
          [of "''03123456''" "failure ''Timeout fetching Expiry Date from API''" silent_library
              "account_data_for ''03123456''" unreachable_exchange "''Read timed out.''"]
      by simp
  qed
  have c1: "payload (json_response malformed_consumption) = Some (malformed_consumption)"
    by (simp add: payload_def json_response_def malformed_consumption_def malformed_expiry_def
          malformed_recharge_def malformed_services_def)
  have c2: "parse_consumption silent_library (username (account_data_for ''03123456'')) (malformed_consumption)
            \<lparr>main = main_consumption (account_data_for ''03123456''), mobile = mobile_internet_consumption (account_data_for ''03123456''),
              numbers = [], consumptions = []\<rparr> = Inl ValueError"
    by (simp add: parse_consumption_def malformed_consumption_def bind_def replace_char_def
          float_of_string_def parse_unsigned_def split_digits_def is_digit_def strip_def
          is_space_def)
  have e1: "success (json_response malformed_expiry)"
    by (simp add: json_response_def)
  have e2: "data (json_response malformed_expiry) = Some (malformed_expiry)"
    by (simp add: json_response_def)
  have e3: "parse_expiry silent_library (malformed_expiry) = Inl ValueError"
    by (simp add: malformed_expiry_def days_of_def first_word_def isdigit_def
          int_of_digits_def is_digit_def bind_def)
  have r1: "payload (json_response malformed_recharge) = Some (malformed_recharge)"
    by (simp add: payload_def json_response_def malformed_consumption_def malformed_expiry_def
          malformed_recharge_def malformed_services_def)
  have r2: "parse_recharge (malformed_recharge) = Inl ValueError"
    by (simp add: parse_recharge_def malformed_recharge_def bind_def
          float_of_string_def parse_unsigned_def split_digits_def is_digit_def strip_def
          is_space_def)
  have s1: "payload (json_response malformed_services) = Some (malformed_services)"
    by (simp add: payload_def json_response_def malformed_consumption_def malformed_expiry_def
          malformed_recharge_def malformed_services_def)
  have s2: "parse_services (main_consumption (account_data_for ''03123456'')) (malformed_services) = Inl AttributeError"
    by (simp add: malformed_services_def bind_def names_ushare_def)
  from new_record_fields_and_stage_failures
           [where resp = "json_response malformed_consumption" and d = malformed_consumption and err = ValueError
              and lib = silent_library and a = "account_data_for ''03123456''"] c1 c2
  have c3: "consumption_stage silent_library (json_response malformed_consumption) (account_data_for ''03123456'')
          = ((account_data_for ''03123456'')\<lparr>current_balance := PStr ''API Error'', secondary_numbers := ''API Error'',
               main_consumption := ''API Error'', mobile_internet_consumption := ''API Error'',
               secondary_consumption := ''API Error''\<rparr>,
             [''Consumption API Parse Error''])"
    by blast
  from new_record_fields_and_stage_failures
           [where resp = "json_response malformed_expiry" and d = malformed_expiry and err = ValueError
              and lib = silent_library and a = "account_data_for ''03123456''"] e1 e2 e3
  have e4: "expiry_stage silent_library (json_response malformed_expiry) (account_data_for ''03123456'')
          = ((account_data_for ''03123456'')\<lparr>validity_days_remaining := PStr ''API Error''\<rparr>,
             [''Expiry API Parse Error''])"
    by blast
  from new_record_fields_and_stage_failures
           [where resp = "json_response malformed_recharge" and d = malformed_recharge and err = ValueError
              and lib = silent_library and a = "account_data_for ''03123456''"] r1 r2
  have r3: "recharge_stage (json_response malformed_recharge) (account_data_for ''03123456'')
          = ((account_data_for ''03123456'')\<lparr>last_recharge_amount := PStr ''API Error'',
               last_recharge_date := PStr ''API Error''\<rparr>,
             [''Recharge API Parse Error''])"
    by blast
  from new_record_fields_and_stage_failures
           [where resp = "json_response malformed_services" and d = malformed_services and err = AttributeError
              and lib = silent_library and a = "account_data_for ''03123456''"] s1 s2
  have s3: "services_stage (json_response malformed_services) (account_data_for ''03123456'')
          = ((account_data_for ''03123456'')\<lparr>service_details := ''API Error''\<rparr>,
             [''Services API Parse Error''])"
    by blast
  from w0 c1 c2 c3 e1 e2 e3 e4 r1 r2 r3 s1 s2 s3 show ?thesis
    by blast
qed

text \<open>
  Claim C8 as stated fails for two data fields: a new record holds \<open>None\<close>, not
  \<open>Not Found\<close>, in \<open>service_details\<close> and in \<open>secondary_numbers\<close>.
\<close>

theorem new_record_service_details_counterexample:
  "service_details (account_data_for ''03123456'') = ''None''
   \<and> secondary_numbers (account_data_for ''03123456'') = ''None''
   \<and> (''service_details'', PStr ''None'') \<in> set (data_fields (account_data_for ''03123456''))
   \<and> (''secondary_numbers'', PStr ''None'') \<in> set (data_fields (account_data_for ''03123456''))
   \<and> \<not> is_sentinel (PStr ''None'')"
  by (simp add: data_fields_def to_dict_def account_data_for_def new_account_data_def
        is_sentinel_def)

section \<open>Claims about the parsers of the stages\<close>

lemmas number_parsing =
  float_of_string_def parse_unsigned_def split_digits_def parse_exponent_def
  nat_of_digits_def digit_value_def is_digit_def strip_def is_space_def
  format_2f_def round_half_even_def str_nat.simps digit_char_def

text \<open>
  Claim C7. Whatever the record held before and whatever the library prints: the
  consumption stage turns a response with \<open>CurrentBalanceValue\<close> \<open>$12.50 \<close> into the
  balance 12.5 and records no failure; the expiry stage turns the response
  \<open>15 days\<close> into 15 days remaining; and the consumption stage turns a detail with
  \<open>ConsumptionValue\<close> 2048 and \<open>PackageValue\<close> 5 of the service Mobile Internet into the
  mobile internet consumption \<open>2.00 GB/5 GB\<close>.
\<close>

theorem stage_parsers_on_the_examples:
  "current_balance (fst (consumption_stage lib
       (json_response (PDict [(''CurrentBalanceValue'', PStr ''$12.50 '')])) a))
     = PFloat (25 / 2)
   \<and> snd (consumption_stage lib
       (json_response (PDict [(''CurrentBalanceValue'', PStr ''$12.50 '')])) a) = []
   \<and> validity_days_remaining (fst (expiry_stage lib (json_response (PStr ''15 days'')) a))
     = PInt 15
   \<and> snd (expiry_stage lib (json_response (PStr ''15 days'')) a) = []
   \<and> mobile_internet_consumption (fst (consumption_stage lib
       (json_response (PDict
          [(''ServiceInformationValue'',
            PList [PDict [(''ServiceNameValue'', PStr ''Mobile Internet''),
                          (''ServiceDetailsInformationValue'',
                           PList [PDict [(''ConsumptionValue'', PStr ''2048''),
                                         (''PackageValue'', PStr ''5'')]])]])])) a))
     = ''2.00 GB/5 GB''"
proof -
  have balance: "parse_consumption lib u
                   (PDict [(''CurrentBalanceValue'', PStr ''$12.50 '')])
                   \<lparr>main = m, mobile = mo, numbers = [], consumptions = []\<rparr>
                 = Inr (PFloat (25 / 2), ''None'',
                        \<lparr>main = m, mobile = mo, numbers = [], consumptions = []\<rparr>, ''None'')"
    for u m mo
    by (simp add: parse_consumption_def bind_def replace_char_def sorted_numbers_def
          or_else_def number_parsing)
  have days: "days_of lib (PStr ''15 days'') = Inr (PInt 15)"
    by (simp add: days_of_def first_word_def isdigit_def int_of_digits_def bind_def
          number_parsing)
  have detail: "main_block lib (PStr ''Mobile Internet'')
                  (PDict [(''ConsumptionValue'', PStr ''2048''), (''PackageValue'', PStr ''5'')]) w
                = Inr ((if main w = ''Not Found'' then w\<lparr>main := ''2.00 GB/5 GB''\<rparr> else w)
                         \<lparr>mobile := ''2.00 GB/5 GB''\<rparr>)" for w
    by (simp add: main_block_def bind_def scaled_def number_parsing Let_def)
  have walk: "mobile (if main w = ''Not Found'' then w\<lparr>main := ''2.00 GB/5 GB''\<rparr> else w) = mobile w"
    for w :: walk
    by simp
  have mobile: "mobile_internet_consumption (fst (consumption_stage lib
       (json_response (PDict
          [(''ServiceInformationValue'',
            PList [PDict [(''ServiceNameValue'', PStr ''Mobile Internet''),
                          (''ServiceDetailsInformationValue'',
                           PList [PDict [(''ConsumptionValue'', PStr ''2048''),
                                         (''PackageValue'', PStr ''5'')]])]])])) a))
     = ''2.00 GB/5 GB''"
    by (simp add: consumption_stage_def payload_def json_response_def parse_consumption_def
          bind_def replace_char_def strip_def sorted_numbers_def or_else_def service_step_def
          detail_step_def detail)
  have b1: "current_balance (fst (consumption_stage lib
       (json_response (PDict [(''CurrentBalanceValue'', PStr ''$12.50 '')])) a))
     = PFloat (25 / 2)"
    and b2: "snd (consumption_stage lib
       (json_response (PDict [(''CurrentBalanceValue'', PStr ''$12.50 '')])) a) = []"
    by (simp_all add: consumption_stage_def payload_def json_response_def balance)
  have d1: "validity_days_remaining (fst (expiry_stage lib (json_response (PStr ''15 days'')) a))
     = PInt 15"
    and d2: "snd (expiry_stage lib (json_response (PStr ''15 days'')) a) = []"
    by (simp_all add: expiry_stage_def json_response_def days)
  show ?thesis
    by (intro conjI b1 b2 d1 d2 mobile)
qed

section \<open>Properties of process_account\<close>

lemma data_fields_metadata [simp]:
  "data_fields (a\<lparr>status := s\<rparr>) = data_fields a"
  "data_fields (a\<lparr>error_details := e\<rparr>) = data_fields a"
  by (simp_all add: data_fields_def to_dict_def)

lemma has_sentinel_metadata [simp]:
  "has_sentinel (a\<lparr>status := s\<rparr>) = has_sentinel a"
  "has_sentinel (a\<lparr>error_details := e\<rparr>) = has_sentinel a"
  by (simp_all add: has_sentinel_def)

lemma determine_final_status_result:
  "status (determine_final_status a)
     = (if has_sentinel a then ''Partial Success'' else ''Success'')"
  "has_sentinel (determine_final_status a) = has_sentinel a"
  "error_details (determine_final_status a)
     = (if has_sentinel a
        then (if error_details a = [] then ''Some data could not be retrieved''
              else error_details a)
        else [])"
  "username (determine_final_status a) = username a"
  by (simp_all add: determine_final_status_def Let_def)

lemma new_record_has_sentinel:
  "has_sentinel (account_data_for u)"
  by (simp add: has_sentinel_def data_fields_def to_dict_def account_data_for_def
        new_account_data_def is_sentinel_def)

text \<open>The two ways through \<open>process_account\<close>: the session is acquired, or acquiring it raises.\<close>

lemma process_account_acquired:
  assumes "get_or_create_session (portal_seen x) (clock x) (cred_username credentials)
             (cred_password credentials) rt = (Inr (c, is_new), rt1)"
  shows "fst (process_account lib x credentials rt)
           = determine_final_status
               (extract_html_data x
                  (fst (extract_api_data lib x (account_data_for (cred_username credentials))
                          (cred_password credentials) (session_manager rt1))))"
  using assms by (simp add: process_account_def Let_def split: prod.splits)

lemma process_account_raised:
  assumes "get_or_create_session (portal_seen x) (clock x) (cred_username credentials)
             (cred_password credentials) rt = (Inl (Exception msg), rt1)"
  shows "fst (process_account lib x credentials rt)
           = (account_data_for (cred_username credentials))
               \<lparr>status := ''Error'',
                error_details := (if msg \<noteq> [] then ''Unhandled Exception: '' @ msg
                                  else ''Unknown processing error occurred'')\<rparr>"
  using assms by (simp add: process_account_def Let_def)

lemma acquire_cases:
  obtains (acquired) c is_new rt1 where
      "get_or_create_session p now u pw rt = (Inr (c, is_new), rt1)"
    | (raised) msg rt1 where
      "get_or_create_session p now u pw rt = (Inl (Exception msg), rt1)"
proof (cases "get_or_create_session p now u pw rt")
  case (Pair res rt1)
  show ?thesis
  proof (cases res)
    case (Inl e)
    then show ?thesis using Pair raised by (cases e) simp
  next
    case (Inr session)
    then show ?thesis using Pair acquired by (cases session) simp
  qed
qed

section \<open>Claims about the final status\<close>

lemma first_acquire:
  "get_or_create_session welcoming_portal 0 ''03123456'' ''secret'' initial_runtime
     = (Inr (0, True), logged_in_runtime)"
  by (simp add: get_or_create_session_def cleanup_sessions_def initial_runtime_def
        new_session_manager_def create_session_result login_welcoming
        logged_in_runtime_def first_session_def)

lemma refused_acquire:
  "fst (get_or_create_session refusing_portal 0 ''03123456'' ''secret'' initial_runtime)
     = Inl (Exception ''Login failed: Invalid credentials'')"
  by (simp add: get_or_create_session_def cleanup_sessions_def initial_runtime_def
        new_session_manager_def create_session_result login_refusing str_optional_def)

lemma timed_out_request:
  "make_api_request lib (TimedOut e) url description password retry_count
     = failure (''Timeout fetching '' @ description @ '' from API: '' @ url)"
  by (simp add: make_api_request_def)

lemma failure_not_session_expiry:
  "\<not> py_in ''session'' (lower msg) \<Longrightarrow> \<not> signals_session_expiry (failure msg)"
  by (simp add: signals_session_expiry_def failure_def str_optional_def)

lemma process_account_unreachable:
  "fst (process_account lib unreachable_exchange example_credentials initial_runtime)
     = \<lparr>username = ''03123456'', status = ''Partial Success'',
        error_details = ''Consumption API Fetch Error, Expiry API Fetch Error, Recharge API Fetch Error, Services API Fetch Error, HTML Extraction Error, Manage-Services Extraction Error'',
        activation_date = ''Not Found'',
        validity_days_remaining = PStr ''API Error'',
        current_balance = PStr ''API Error'',
        last_recharge_amount = PStr ''API Error'',
        last_recharge_date = PStr ''API Error'',
        service_details = ''API Error'',
        secondary_numbers = ''API Error'',
        main_consumption = ''API Error'',
        mobile_internet_consumption = ''API Error'',
        secondary_consumption = ''API Error'',
        subscription_date = ''Not Found'',
        validity_date = ''Not Found''\<rparr>"
proof -
  have acquired: "get_or_create_session (portal_seen unreachable_exchange)
      (clock unreachable_exchange) (cred_username example_credentials)
      (cred_password example_credentials) initial_runtime = (Inr (0, True), logged_in_runtime)"
    by (simp add: unreachable_exchange_def example_credentials_def first_acquire)
  have stages: "\<not> success (failure msg)" for msg
    by (simp add: failure_def)
  show ?thesis
    unfolding process_account_acquired [OF acquired]
    by (simp add: extract_api_data_def unreachable_exchange_def example_credentials_def
          timed_out_request consumption_stage_def expiry_stage_def recharge_stage_def
          services_stage_def payload_def stages consumption_failed_def
          extract_html_data_def extract_manage_services_data_def add_tag_def
          determine_final_status_def has_sentinel_def data_fields_def to_dict_def
          is_sentinel_def account_data_for_def new_account_data_def Let_def)
qed

lemma process_account_refused:
  "fst (process_account lib refused_exchange example_credentials initial_runtime)
     = (account_data_for ''03123456'')
         \<lparr>status := ''Error'',
          error_details := ''Unhandled Exception: Login failed: Invalid credentials''\<rparr>"
proof -
  obtain rt1 where raised: "get_or_create_session (portal_seen refused_exchange)
      (clock refused_exchange) (cred_username example_credentials)
      (cred_password example_credentials) initial_runtime
        = (Inl (Exception ''Login failed: Invalid credentials''), rt1)"
    using refused_acquire
    by (cases "get_or_create_session refusing_portal 0 ''03123456'' ''secret'' initial_runtime")
       (simp add: refused_exchange_def unreachable_exchange_def example_credentials_def)
  show ?thesis
    unfolding process_account_raised [OF raised]
    by (simp add: example_credentials_def)
qed

text \<open>
  Claim C1, as the code has it. For the record that \<open>process_account\<close> returns: the
  status is \<open>Success\<close> exactly when no data field (no field other than \<open>username\<close>,
  \<open>status\<close> and \<open>error_details\<close>) holds \<open>Not Found\<close> or \<open>API Error\<close>; when the status is
  \<open>Success\<close> the error details are empty; and a record whose status is not \<open>Success\<close> is
  marked \<open>Partial Success\<close> when the session was acquired, so that all stages ran, and
  \<open>Error\<close> when acquiring the session raised.
\<close>

theorem final_status_of_processed_account:
  "(status (fst (process_account lib x credentials rt)) = ''Success'')
      = (\<not> has_sentinel (fst (process_account lib x credentials rt)))
   \<and> (status (fst (process_account lib x credentials rt)) = ''Success'' \<longrightarrow>
         error_details (fst (process_account lib x credentials rt)) = [])
   \<and> (status (fst (process_account lib x credentials rt)) \<noteq> ''Success'' \<longrightarrow>
         (case fst (get_or_create_session (portal_seen x) (clock x)
                      (cred_username credentials) (cred_password credentials) rt) of
            Inr session \<Rightarrow>
              status (fst (process_account lib x credentials rt)) = ''Partial Success''
          | Inl e \<Rightarrow>
              status (fst (process_account lib x credentials rt)) = ''Error''))"
proof (cases rule: acquire_cases
    [of "portal_seen x" "clock x" "cred_username credentials" "cred_password credentials" rt])
  case (acquired c is_new rt1)
  show ?thesis
    unfolding process_account_acquired [OF acquired]
    by (simp add: determine_final_status_result acquired)
next
  case (raised msg rt1)
  show ?thesis
    unfolding process_account_raised [OF raised]
    by (simp add: new_record_has_sentinel raised)
qed

theorem final_status_of_processed_account_witness:
  "status (fst (process_account silent_library unreachable_exchange example_credentials
                  initial_runtime)) \<noteq> ''Success''
   \<and> has_sentinel (fst (process_account silent_library unreachable_exchange
                          example_credentials initial_runtime))
   \<and> fst (get_or_create_session (portal_seen unreachable_exchange)
            (clock unreachable_exchange) (cred_username example_credentials)
            (cred_password example_credentials) initial_runtime) = Inr (0, True)
   \<and> status (fst (process_account silent_library unreachable_exchange example_credentials
                    initial_runtime)) = ''Partial Success''
   \<and> status (fst (process_account silent_library refused_exchange example_credentials
                    initial_runtime)) \<noteq> ''Success''
   \<and> has_sentinel (fst (process_account silent_library refused_exchange
                          example_credentials initial_runtime))
   \<and> fst (get_or_create_session (portal_seen refused_exchange)
            (clock refused_exchange) (cred_username example_credentials)
            (cred_password example_credentials) initial_runtime)
        = Inl (Exception ''Login failed: Invalid credentials'')
   \<and> status (fst (process_account silent_library refused_exchange example_credentials
                    initial_runtime)) = ''Error''"
proof -
  have a1: "fst (get_or_create_session (portal_seen unreachable_exchange)
            (clock unreachable_exchange) (cred_username example_credentials)
            (cred_password example_credentials) initial_runtime) = Inr (0, True)"
    by (simp add: unreachable_exchange_def example_credentials_def first_acquire)
  have a2: "fst (get_or_create_session (portal_seen refused_exchange)
            (clock refused_exchange) (cred_username example_credentials)
            (cred_password example_credentials) initial_runtime)
        = Inl (Exception ''Login failed: Invalid credentials'')"
    by (simp add: refused_exchange_def unreachable_exchange_def example_credentials_def
          refused_acquire)
  have s1: "status (fst (process_account silent_library unreachable_exchange
                           example_credentials initial_runtime)) \<noteq> ''Success''"
    by (simp add: process_account_unreachable)
  have s2: "status (fst (process_account silent_library refused_exchange
                           example_credentials initial_runtime)) \<noteq> ''Success''"
    by (simp add: process_account_refused)
  note partial = final_status_of_processed_account
         [of silent_library unreachable_exchange example_credentials initial_runtime]
  note failed = final_status_of_processed_account
         [of silent_library refused_exchange example_credentials initial_runtime]
  from partial s1
  have p1: "has_sentinel (fst (process_account silent_library unreachable_exchange
                                 example_credentials initial_runtime))"
    by blast
  from partial s1
  have p2: "status (fst (process_account silent_library unreachable_exchange
                           example_credentials initial_runtime)) = ''Partial Success''"
    unfolding a1 by simp
  from failed s2
  have f1: "has_sentinel (fst (process_account silent_library refused_exchange
                                 example_credentials initial_runtime))"
    by blast
  from failed s2
  have f2: "status (fst (process_account silent_library refused_exchange
                           example_credentials initial_runtime)) = ''Error''"
    unfolding a2 by simp
  from a1 a2 s1 s2 p1 p2 f1 f2 show ?thesis
    by blast
qed

text \<open>
  Claim C1 as stated fails when the login is rejected: the record is not \<open>Success\<close>, and
  it is marked \<open>Error\<close>, not \<open>Partial Success\<close>; its data fields still hold the defaults.
\<close>

theorem rejected_login_is_error_counterexample:
  "fst (process_account silent_library refused_exchange example_credentials initial_runtime)
     = (account_data_for ''03123456'')
         \<lparr>status := ''Error'',
          error_details := ''Unhandled Exception: Login failed: Invalid credentials''\<rparr>
   \<and> status (fst (process_account silent_library refused_exchange example_credentials
                    initial_runtime)) \<noteq> ''Success''
   \<and> status (fst (process_account silent_library refused_exchange example_credentials
                    initial_runtime)) \<noteq> ''Partial Success''"
  by (simp add: process_account_refused)

section \<open>Claims about the error details\<close>

lemma process_batch_concurrent_length:
  "length (process_batch_concurrent run gather_raises start batch) = length batch"
  by (simp add: process_batch_concurrent_def split: option.splits)

lemma process_batch_concurrent_nth:
  assumes "i < length batch"
  shows "process_batch_concurrent run gather_raises start batch ! i
           = (case gather_raises start of
                Some e \<Rightarrow> new_account_data (cred_username (batch ! i)) ''Error''
                            (''Batch processing failed: '' @ e)
              | None \<Rightarrow>
                  (case run (start + i) (batch ! i) of
                     Returned r \<Rightarrow> r
                   | Raised e \<Rightarrow> new_account_data (cred_username (batch ! i)) ''Error''
                                  (''Processing failed: '' @ e)))"
  using assms
  by (simp add: process_batch_concurrent_def nth_enumerate_eq
        split: option.splits outcome.splits)

lemma process_account_error_details:
  "status (fst (process_account lib x credentials rt)) \<noteq> ''Success''
     \<Longrightarrow> error_details (fst (process_account lib x credentials rt)) \<noteq> []"
proof (cases rule: acquire_cases
    [of "portal_seen x" "clock x" "cred_username credentials" "cred_password credentials" rt])
  case (acquired c is_new rt1)
  assume "status (fst (process_account lib x credentials rt)) \<noteq> ''Success''"
  then show ?thesis
    unfolding process_account_acquired [OF acquired]
    by (simp add: determine_final_status_result split: if_splits)
next
  case (raised msg rt1)
  show ?thesis
    unfolding process_account_raised [OF raised] by simp
qed

lemma process_account_raised_record:
  assumes "fst (get_or_create_session (portal_seen x) (clock x) (cred_username credentials)
                  (cred_password credentials) rt) = Inl (Exception msg)"
  shows "fst (process_account lib x credentials rt)
           = (account_data_for (cred_username credentials))
               \<lparr>status := ''Error'',
                error_details := (if msg \<noteq> [] then ''Unhandled Exception: '' @ msg
                                  else ''Unknown processing error occurred'')\<rparr>"
proof -
  obtain rt1 where "get_or_create_session (portal_seen x) (clock x)
      (cred_username credentials) (cred_password credentials) rt = (Inl (Exception msg), rt1)"
    using assms
    by (cases "get_or_create_session (portal_seen x) (clock x) (cred_username credentials)
                 (cred_password credentials) rt") simp
  then show ?thesis
    by (rule process_account_raised)
qed

text \<open>
  Claim C6. The record that \<open>process_account\<close> returns has non-empty error details
  whenever its status is \<open>Partial Success\<close> or \<open>Error\<close>: when the final status is derived
  from a record that holds a sentinel and has no tag, the error details become
  \<open>Some data could not be retrieved\<close>; when acquiring the session raises, the status is
  \<open>Error\<close> and the error details are \<open>Unhandled Exception: \<close> followed by the message of
  the exception, or \<open>Unknown processing error occurred\<close> for an empty message. In
  \<open>process_batch_concurrent\<close> the record of a task that returned is the record it
  returned, the record of a task that raised and the records of a batch whose \<open>gather\<close>
  raised are \<open>Error\<close> records with a non-empty message; so when the records the tasks
  return have non-empty error details unless they are \<open>Success\<close>, so has every record of
  the batch.
\<close>

theorem error_details_of_unsuccessful_record:
  "(status (fst (process_account lib x credentials rt)) = ''Partial Success''
      \<or> status (fst (process_account lib x credentials rt)) = ''Error'' \<longrightarrow>
      error_details (fst (process_account lib x credentials rt)) \<noteq> [])
   \<and> (has_sentinel a \<and> error_details a = [] \<longrightarrow>
         status (determine_final_status a) = ''Partial Success''
         \<and> error_details (determine_final_status a) = ''Some data could not be retrieved'')
   \<and> (fst (get_or_create_session (portal_seen x) (clock x) (cred_username credentials)
              (cred_password credentials) rt) = Inl (Exception msg) \<longrightarrow>
         status (fst (process_account lib x credentials rt)) = ''Error''
         \<and> error_details (fst (process_account lib x credentials rt))
             = (if msg \<noteq> [] then ''Unhandled Exception: '' @ msg
                else ''Unknown processing error occurred''))
   \<and> (i < length batch \<longrightarrow>
         process_batch_concurrent run gather_raises start batch ! i
           = (case gather_raises start of
                Some e \<Rightarrow> new_account_data (cred_username (batch ! i)) ''Error''
                            (''Batch processing failed: '' @ e)
              | None \<Rightarrow>
                  (case run (start + i) (batch ! i) of
                     Returned r \<Rightarrow> r
                   | Raised e \<Rightarrow> new_account_data (cred_username (batch ! i)) ''Error''
                                  (''Processing failed: '' @ e))))
   \<and> (i < length batch
        \<and> (\<forall>k account r. run k account = Returned r \<longrightarrow> status r \<noteq> ''Success''
              \<longrightarrow> error_details r \<noteq> []) \<longrightarrow>
         status (process_batch_concurrent run gather_raises start batch ! i) \<noteq> ''Success''
         \<longrightarrow> error_details (process_batch_concurrent run gather_raises start batch ! i) \<noteq> [])"
proof -
  have one: "status (fst (process_account lib x credentials rt)) = ''Partial Success''
      \<or> status (fst (process_account lib x credentials rt)) = ''Error'' \<longrightarrow>
      error_details (fst (process_account lib x credentials rt)) \<noteq> []"
    using process_account_error_details [of lib x credentials rt] by auto
  have two: "has_sentinel a \<and> error_details a = [] \<longrightarrow>
         status (determine_final_status a) = ''Partial Success''
         \<and> error_details (determine_final_status a) = ''Some data could not be retrieved''"
    by (simp add: determine_final_status_result)
  have three: "fst (get_or_create_session (portal_seen x) (clock x) (cred_username credentials)
              (cred_password credentials) rt) = Inl (Exception msg) \<longrightarrow>
         status (fst (process_account lib x credentials rt)) = ''Error''
         \<and> error_details (fst (process_account lib x credentials rt))
             = (if msg \<noteq> [] then ''Unhandled Exception: '' @ msg
                else ''Unknown processing error occurred'')"
    by (simp add: process_account_raised_record)
  have four: "process_batch_concurrent run gather_raises start batch ! i
           = (case gather_raises start of
                Some e \<Rightarrow> new_account_data (cred_username (batch ! i)) ''Error''
                            (''Batch processing failed: '' @ e)
              | None \<Rightarrow>
                  (case run (start + i) (batch ! i) of
                     Returned r \<Rightarrow> r
                   | Raised e \<Rightarrow> new_account_data (cred_username (batch ! i)) ''Error''
                                  (''Processing failed: '' @ e)))"
    if "i < length batch"
    using that by (rule process_batch_concurrent_nth)
  have five: "error_details (process_batch_concurrent run gather_raises start batch ! i) \<noteq> []"
    if "i < length batch"
      and "\<forall>k account r. run k account = Returned r \<longrightarrow> status r \<noteq> ''Success''
             \<longrightarrow> error_details r \<noteq> []"
      and "status (process_batch_concurrent run gather_raises start batch ! i) \<noteq> ''Success''"
    using that(2,3) unfolding four [OF that(1)]
    by (auto simp add: new_account_data_def split: option.splits outcome.splits)
  from one two three four five show ?thesis
    by blast
qed

theorem error_details_of_unsuccessful_record_witness:
  "status (fst (process_account silent_library unreachable_exchange example_credentials
                  initial_runtime)) = ''Partial Success''
   \<and> error_details (fst (process_account silent_library unreachable_exchange
                            example_credentials initial_runtime)) \<noteq> []
   \<and> has_sentinel (account_data_for ''03123456'')
   \<and> error_details (account_data_for ''03123456'') = []
   \<and> error_details (determine_final_status (account_data_for ''03123456''))
        = ''Some data could not be retrieved''
   \<and> fst (get_or_create_session (portal_seen refused_exchange) (clock refused_exchange)
            (cred_username example_credentials) (cred_password example_credentials)
            initial_runtime) = Inl (Exception ''Login failed: Invalid credentials'')
   \<and> status (fst (process_account silent_library refused_exchange example_credentials
                    initial_runtime)) = ''Error''
   \<and> error_details (fst (process_account silent_library refused_exchange
                            example_credentials initial_runtime))
        = ''Unhandled Exception: Login failed: Invalid credentials''
   \<and> (1 :: nat) < length [example_credentials, example_credentials]
   \<and> process_batch_concurrent example_run (\<lambda>start. None) 0
        [example_credentials, example_credentials] ! 1
        = new_account_data ''03123456'' ''Error''
            ''Processing failed: Connection reset by peer''
   \<and> status (process_batch_concurrent example_run (\<lambda>start. None) 0
               [example_credentials, example_credentials] ! 0) \<noteq> ''Success''
   \<and> error_details (process_batch_concurrent example_run (\<lambda>start. None) 0
                       [example_credentials, example_credentials] ! 0) \<noteq> []"
proof -
  have s1: "status (fst (process_account silent_library unreachable_exchange
                           example_credentials initial_runtime)) = ''Partial Success''"
    by (simp add: process_account_unreachable)
  have h1: "has_sentinel (account_data_for ''03123456'')"
    by (rule new_record_has_sentinel)
  have h2: "error_details (account_data_for ''03123456'') = []"
    by (simp add: account_data_for_def new_account_data_def)
  have a2: "fst (get_or_create_session (portal_seen refused_exchange) (clock refused_exchange)
            (cred_username example_credentials) (cred_password example_credentials)
            initial_runtime) = Inl (Exception ''Login failed: Invalid credentials'')"
    by (simp add: refused_exchange_def unreachable_exchange_def example_credentials_def
          refused_acquire)
  have l1: "(1 :: nat) < length [example_credentials, example_credentials]"
    and l0: "(0 :: nat) < length [example_credentials, example_credentials]"
    by simp_all
  have tasks: "\<forall>k account r. example_run k account = Returned r \<longrightarrow> status r \<noteq> ''Success''
                 \<longrightarrow> error_details r \<noteq> []"
    by (auto simp add: example_run_def process_account_error_details split: if_splits)
  have b0: "status (process_batch_concurrent example_run (\<lambda>start. None) 0
               [example_credentials, example_credentials] ! 0) \<noteq> ''Success''"
    by (simp add: process_batch_concurrent_nth example_run_def process_account_unreachable)
  note partial = error_details_of_unsuccessful_record
         [of silent_library unreachable_exchange example_credentials initial_runtime]
  note generic = error_details_of_unsuccessful_record
         [where a = "account_data_for ''03123456''"]
  note failed = error_details_of_unsuccessful_record
         [where lib = silent_library and x = refused_exchange
            and credentials = example_credentials and rt = initial_runtime
            and msg = "''Login failed: Invalid credentials''"]
  note raised = error_details_of_unsuccessful_record
         [where i = 1 and batch = "[example_credentials, example_credentials]"
            and run = example_run and gather_raises = "\<lambda>start. None" and start = 0]
  note returned = error_details_of_unsuccessful_record
         [where i = 0 and batch = "[example_credentials, example_credentials]"
            and run = example_run and gather_raises = "\<lambda>start. None" and start = 0]
  from partial s1
  have c1: "error_details (fst (process_account silent_library unreachable_exchange
                            example_credentials initial_runtime)) \<noteq> []"
    by blast
  from generic h1 h2
  have c2: "error_details (determine_final_status (account_data_for ''03123456''))
        = ''Some data could not be retrieved''"
    by blast
  from failed a2
  have c3: "status (fst (process_account silent_library refused_exchange example_credentials
                    initial_runtime)) = ''Error''"
    and c4: "error_details (fst (process_account silent_library refused_exchange
                            example_credentials initial_runtime))
        = ''Unhandled Exception: Login failed: Invalid credentials''"
    by simp_all
  from raised l1
  have c5: "process_batch_concurrent example_run (\<lambda>start. None) 0
        [example_credentials, example_credentials] ! 1
        = new_account_data ''03123456'' ''Error''
            ''Processing failed: Connection reset by peer''"
    by (simp add: example_run_def example_credentials_def)
  from returned l0 tasks b0
  have c6: "error_details (process_batch_concurrent example_run (\<lambda>start. None) 0
                       [example_credentials, example_credentials] ! 0) \<noteq> []"
    by blast
  from s1 c1 h1 h2 c2 a2 c3 c4 l1 c5 b0 c6 show ?thesis
    by blast
qed

section \<open>Properties of the batch orchestrator\<close>














section \<open>Claims about the batch orchestrator\<close>

lemma add_tag_username [simp]:
  "username (add_tag t a) = username a"
  by (simp add: add_tag_def)

lemma extract_html_data_username [simp]:
  "username (extract_html_data x a) = username a"
  by (simp add: extract_html_data_def extract_manage_services_data_def Let_def
        split: fetched.splits option.splits list.splits)

lemma stages_username [simp]:
  "username (fst (consumption_stage lib resp a)) = username a"
  "username (fst (expiry_stage lib resp a)) = username a"
  "username (fst (recharge_stage resp a)) = username a"
  "username (fst (services_stage resp a)) = username a"
  by (simp_all add: consumption_stage_def expiry_stage_def recharge_stage_def
        services_stage_def consumption_failed_def
        split: option.splits sum.splits prod.splits)

lemma extract_api_data_username [simp]:
  "username (fst (extract_api_data lib x a pw m)) = username a"
  by (simp add: extract_api_data_def Let_def split_beta)









end
